theory Spec2Isabelle
  imports Main
begin

section \<open>Data model\<close>

text \<open>
  \<^verbatim>\<open>src/extractor.py\<close> is the per-sheet glue of the answer-key extractor: it calls the
  collaborators of the modules \<^verbatim>\<open>image_utils\<close>, \<^verbatim>\<open>corner_finding\<close>, \<^verbatim>\<open>grid_info\<close>,
  \<^verbatim>\<open>grid_reading\<close> and \<^verbatim>\<open>data_exporting\<close> in a fixed order, catches their exceptions and
  returns the path of the saved answer key or \<^verbatim>\<open>None\<close>. Those modules are not part of the
  sources at hand, so their functions are parameters of the model (the record
  \<open>helpers\<close> below); the objects they exchange (images, corners, the grid, group
  descriptions, fill percents, the threshold) are opaque to the extractor and are type
  variables \<open>'i\<close>, \<open>'c\<close>, \<open>'g\<close>, \<open>'q\<close>, \<open>'p\<close>, \<open>'t\<close>.
\<close>

subsection \<open>Paths, timestamps, exceptions\<close>

text \<open>
  A \<^verbatim>\<open>pathlib.Path\<close> is the list of its components. \<^verbatim>\<open>p / c\<close> appends one component
  (the extractor only joins a folder with a single file or folder name) and leaves \<open>p\<close>
  as it is when \<open>c\<close> is empty (the stem of a path without a name), \<^verbatim>\<open>p.name\<close> is
  the last component and \<^verbatim>\<open>p.stem\<close> is the name without its last suffix: the name is
  cut at its last dot unless that dot is the first or the last character.
  A \<^verbatim>\<open>datetime\<close> truncated to seconds is an integer.
\<close>

type_synonym path = "string list"

type_synonym datetime = int

definition path_join :: "path \<Rightarrow> string \<Rightarrow> path" where
  "path_join p c = (if c = [] then p else p @ [c])"

definition path_name :: "path \<Rightarrow> string" where
  "path_name p = (if p = [] then [] else last p)"

definition path_stem :: "path \<Rightarrow> string" where
  "path_stem p =
     (let name = path_name p;
          after = length (takeWhile (\<lambda>c. c \<noteq> CHR ''.'') (rev name))
      in if after = length name then name
         else (let i = length name - after - 1
               in if 0 < i \<and> i < length name - 1 then take i name else name))"

text \<open>
  Exceptions are values. \<open>CornerFindingError\<close> is the class the inner handler names
  (line 60), \<open>IndexError\<close> is what the subscript \<^verbatim>\<open>answer_fill_percents[i]\<close> raises
  (line 97), and \<open>Exception\<close> stands for every other subclass of Python's
  \<^verbatim>\<open>Exception\<close> a collaborator may raise. Each carries its message, which \<^verbatim>\<open>str(e)\<close>
  returns.
\<close>

datatype exn = CornerFindingError string | IndexError string | Exception string

fun str_exn :: "exn \<Rightarrow> string" where
  "str_exn (CornerFindingError m) = m"
| "str_exn (IndexError m) = m"
| "str_exn (Exception m) = m"

subsection \<open>Form variants and the output sheet\<close>

text \<open>
  \<^verbatim>\<open>grid_info.Field\<close>: the extractor names two members of the enumeration; every other
  member is \<open>Other_field\<close>. Of a \<^verbatim>\<open>FormVariant\<close> the extractor reads \<^verbatim>\<open>fields\<close> (here \<open>form_fields\<close>: a dict
  from field to an optional group description, iterated in insertion order),
  \<^verbatim>\<open>questions\<close> and \<^verbatim>\<open>num_questions\<close>.
\<close>

datatype field = TEST_FORM_CODE | IMAGE_FILE | Other_field string

record 'q form_variant =
  form_fields :: "(field \<times> 'q option) list"
  questions :: "'q list"
  num_questions :: int

text \<open>
  A Python dict as an association list in insertion order: assigning to a key that is
  present keeps its position, a new key goes to the end.
\<close>

fun dict_set :: "('k \<times> 'v) list \<Rightarrow> 'k \<Rightarrow> 'v \<Rightarrow> ('k \<times> 'v) list" where
  "dict_set [] k v = [(k, v)]"
| "dict_set ((k', v') # kvs) k v =
     (if k' = k then (k, v) # kvs else (k', v') # dict_set kvs k v)"

text \<open>
  Modelled from the spec: the class \<^verbatim>\<open>data_exporting.OutputSheet\<close>, whose code is not
  among the sources. The spec calls what the pipeline hands to persistence "a structured
  record (field values + ordered question answers)", "field values plus one answer
  string per question, ready for external persistence as a row in a tabular export", and
  leaves the display of an empty answer to the caller ("a fixed placeholder
  character"); the extractor's docstring says of its flag "Save empty answers as 'G'"
  and passes the placeholder as \<^verbatim>\<open>replace_empty_with\<close>. So a sheet has its columns, its
  number of questions and its rows; \<open>add\<close> appends one row of field values and
  answers; \<open>clean_up\<close> replaces every empty answer by the placeholder.
\<close>

record output_row =
  row_fields :: "(field \<times> string) list"
  row_answers :: "string list"

record output_sheet =
  sheet_columns :: "field list"
  sheet_num_questions :: int
  sheet_rows :: "output_row list"

definition OutputSheet :: "field list \<Rightarrow> int \<Rightarrow> output_sheet" where
  "OutputSheet columns n =
     \<lparr>sheet_columns = columns, sheet_num_questions = n, sheet_rows = []\<rparr>"

definition add :: "output_sheet \<Rightarrow> (field \<times> string) list \<Rightarrow> string list \<Rightarrow> output_sheet" where
  "add sheet field_data answers =
     sheet\<lparr>sheet_rows := sheet_rows sheet @ [\<lparr>row_fields = field_data, row_answers = answers\<rparr>]\<rparr>"

definition clean_up :: "output_sheet \<Rightarrow> string \<Rightarrow> output_sheet" where
  "clean_up sheet replace_empty_with =
     sheet\<lparr>sheet_rows :=
       map (\<lambda>r. r\<lparr>row_answers := map (\<lambda>a. if a = [] then replace_empty_with else a) (row_answers r)\<rparr>)
         (sheet_rows sheet)\<rparr>"

subsection \<open>The collaborators\<close>

text \<open>
  Every collaborator is a function of its arguments and of the world \<open>'w\<close> (the file
  system, the screen, whatever the absent module keeps); it returns a value or raises,
  and leaves a new world. \<^verbatim>\<open>print\<close> is one of them: it writes to the standard output of
  the process and raises when that output cannot take the text (\<^verbatim>\<open>UnicodeEncodeError\<close> for a
  character outside its encoding). \<open>get_all_fill_percents h q grid\<close> is the chained call
  \<^verbatim>\<open>grid_r.get_group_from_info(q, grid).get_all_fill_percents()\<close>. The two grid
  dimensions are constants of \<^verbatim>\<open>grid_info\<close>.
\<close>

type_synonym ('w, 'a) effect = "'w \<Rightarrow> (exn + 'a) \<times> 'w"

record ('w, 'i, 'c, 'g, 'q, 'p, 't) helpers =
  format_timestamp_for_file :: "datetime option \<Rightarrow> ('w, string) effect"
  make_dir_if_not_exists :: "path \<Rightarrow> ('w, unit) effect"
  get_image :: "path \<Rightarrow> path option \<Rightarrow> ('w, 'i) effect"
  prepare_scan_for_processing :: "'i \<Rightarrow> path option \<Rightarrow> ('w, 'i) effect"
  find_corner_marks :: "'i \<Rightarrow> path option \<Rightarrow> ('w, 'c) effect"
  dilate :: "'i \<Rightarrow> path option \<Rightarrow> ('w, 'i) effect"
  GRID_HORIZONTAL_CELLS :: int
  GRID_VERTICAL_CELLS :: int
  Grid :: "'c \<Rightarrow> int \<Rightarrow> int \<Rightarrow> 'i \<Rightarrow> path option \<Rightarrow> ('w, 'g) effect"
  get_all_fill_percents :: "'q \<Rightarrow> 'g \<Rightarrow> ('w, 'p) effect"
  calculate_bubble_fill_threshold ::
    "(field \<times> 'p) list \<Rightarrow> 'p list \<Rightarrow> path option \<Rightarrow> 'q form_variant \<Rightarrow> ('w, 't) effect"
  read_answer_as_string ::
    "int \<Rightarrow> 'g \<Rightarrow> bool \<Rightarrow> 't \<Rightarrow> 'q form_variant \<Rightarrow> 'p \<Rightarrow> ('w, string) effect"
  read_field_as_string ::
    "field \<Rightarrow> 'g \<Rightarrow> 't \<Rightarrow> 'q form_variant \<Rightarrow> 'p \<Rightarrow> ('w, string option) effect"
  save :: "output_sheet \<Rightarrow> path \<Rightarrow> string \<Rightarrow> bool \<Rightarrow> datetime option \<Rightarrow> ('w, path) effect"
  print :: "string \<Rightarrow> ('w, unit) effect"

subsection \<open>The log of a run\<close>

text \<open>
  A run is observed through the calls it makes: each call of a collaborator is logged
  with its arguments and its outcome, each \<^verbatim>\<open>print\<close> that returned with its message
  (\<open>Print\<close>) and each that raised with its message and the exception (\<open>Print_failed\<close>), in
  the order the extractor makes them. The log is what the claims about the order of the stages, the
  threshold and the saved record are stated on.
\<close>

datatype ('i, 'c, 'g, 'q, 'p, 't) event =
    Print string
  | Print_failed string exn
  | Set_status string bool "exn + unit"
  | Format_timestamp_for_file "datetime option" "exn + string"
  | Make_dir_if_not_exists path "exn + unit"
  | Get_image path "path option" "exn + 'i"
  | Prepare_scan_for_processing 'i "path option" "exn + 'i"
  | Find_corner_marks 'i "path option" "exn + 'c"
  | Dilate 'i "path option" "exn + 'i"
  | Grid_init 'c int int 'i "path option" "exn + 'g"
  | Get_all_fill_percents 'q 'g "exn + 'p"
  | Calculate_bubble_fill_threshold "(field \<times> 'p) list" "'p list" "path option"
      "'q form_variant" "exn + 't"
  | Read_answer_as_string int 'g bool 't "'q form_variant" 'p "exn + string"
  | Read_field_as_string field 'g 't "'q form_variant" 'p "exn + string option"
  | OutputSheet_init "field list" int
  | OutputSheet_add "(field \<times> string) list" "string list"
  | OutputSheet_clean_up string
  | OutputSheet_save output_sheet path string bool "datetime option" "exn + path"

section \<open>Programs: world, exceptions, log\<close>

text \<open>
  A program takes the world and returns its outcome (\<open>Inl\<close> an exception that
  propagates, \<open>Inr\<close> the value), the new world and the events it logged.
\<close>

type_synonym ('w, 'e, 'a) prog = "'w \<Rightarrow> (exn + 'a) \<times> 'w \<times> 'e list"

definition py_return :: "'a \<Rightarrow> ('w, 'e, 'a) prog" where
  "py_return x = (\<lambda>w. (Inr x, w, []))"

definition py_raise :: "exn \<Rightarrow> ('w, 'e, 'a) prog" where
  "py_raise e = (\<lambda>w. (Inl e, w, []))"

definition py_bind :: "('w, 'e, 'a) prog \<Rightarrow> ('a \<Rightarrow> ('w, 'e, 'b) prog) \<Rightarrow> ('w, 'e, 'b) prog" where
  "py_bind m f = (\<lambda>w. case m w of
       (Inl e, w1, t1) \<Rightarrow> (Inl e, w1, t1)
     | (Inr x, w1, t1) \<Rightarrow> (case f x w1 of (r, w2, t2) \<Rightarrow> (r, w2, t1 @ t2)))"

text \<open>\<^verbatim>\<open>try: m except Exception as e: handler\<close>; a handler for one class re-raises the others.\<close>

definition py_except :: "('w, 'e, 'a) prog \<Rightarrow> (exn \<Rightarrow> ('w, 'e, 'a) prog) \<Rightarrow> ('w, 'e, 'a) prog" where
  "py_except m handler = (\<lambda>w. case m w of
       (Inl e, w1, t1) \<Rightarrow> (case handler e w1 of (r, w2, t2) \<Rightarrow> (r, w2, t1 @ t2))
     | (Inr x, w1, t1) \<Rightarrow> (Inr x, w1, t1))"

definition call :: "((exn + 'a) \<Rightarrow> 'e) \<Rightarrow> ('w, 'a) effect \<Rightarrow> ('w, 'e, 'a) prog" where
  "call ev f = (\<lambda>w. case f w of (r, w1) \<Rightarrow> (r, w1, [ev r]))"

definition log_event :: "'e \<Rightarrow> ('w, 'e, unit) prog" where
  "log_event ev = (\<lambda>w. (Inr (), w, [ev]))"

text \<open>A list comprehension \<^verbatim>\<open>[f(x) for x in xs]\<close>: left to right, stopping at the first exception.\<close>

fun py_map :: "('a \<Rightarrow> ('w, 'e, 'b) prog) \<Rightarrow> 'a list \<Rightarrow> ('w, 'e, 'b list) prog" where
  "py_map f [] = py_return []"
| "py_map f (x # xs) = py_bind (f x) (\<lambda>y. py_bind (py_map f xs) (\<lambda>ys. py_return (y # ys)))"

text \<open>\<^verbatim>\<open>range(n)\<close> is empty for \<open>n \<le> 0\<close>; \<^verbatim>\<open>xs[i]\<close> counts a negative index from the end and raises IndexError out of range.\<close>

definition py_range :: "int \<Rightarrow> int list" where
  "py_range n = map int [0..<nat n]"

definition py_index :: "'a list \<Rightarrow> int \<Rightarrow> ('w, 'e, 'a) prog" where
  "py_index xs i =
     (let n = int (length xs); j = (if i < 0 then n + i else i)
      in if 0 \<le> j \<and> j < n then py_return (xs ! nat j)
         else py_raise (IndexError ''list index out of range''))"

text \<open>\<^verbatim>\<open>r or ""\<close> for an optional string: \<^verbatim>\<open>None\<close> and the empty string are falsy.\<close>

definition or_empty :: "string option \<Rightarrow> string" where
  "or_empty r = (case r of None \<Rightarrow> [] | Some s \<Rightarrow> (if s = [] then [] else s))"

text \<open>The two marks of the messages, as the bytes of their UTF-8 encoding.\<close>

definition check_mark :: string where
  "check_mark = [CHR 0xE2, CHR 0x9C, CHR 0x94, CHR 0xEF, CHR 0xB8, CHR 0x8F]"

definition cross_mark :: string where
  "cross_mark = [CHR 0xE2, CHR 0x9D, CHR 0x8C]"

section \<open>The extractor\<close>

text \<open>
  \<^verbatim>\<open>print(s)\<close> on the standard output \<open>print h\<close>. The messages of lines 130 and 134 start
  with a mark outside ASCII, so whether they print depends on the encoding of the output.
\<close>

definition py_print ::
  "('w, 'i, 'c, 'g, 'q, 'p, 't) helpers \<Rightarrow> string \<Rightarrow> ('w, ('i, 'c, 'g, 'q, 'p, 't) event, unit) prog" where
  "py_print h s = call (\<lambda>r. case r of Inl e \<Rightarrow> Print_failed s e | Inr _ \<Rightarrow> Print s) (print h s)"

text \<open>Lines 40-48: the debug directory, created outside the \<^verbatim>\<open>try\<close>.\<close>

definition debug_setup ::
  "('w, 'i, 'c, 'g, 'q, 'p, 't) helpers \<Rightarrow> path \<Rightarrow> path \<Rightarrow> datetime option \<Rightarrow> bool
    \<Rightarrow> ('w, ('i, 'c, 'g, 'q, 'p, 't) event, path option) prog" where
  "debug_setup h image_path output_folder files_timestamp debug_mode_on =
     (if debug_mode_on then
        py_bind (call (Format_timestamp_for_file files_timestamp)
                   (format_timestamp_for_file h files_timestamp)) (\<lambda>stamp.
        let debug_dir = path_join output_folder (stamp @ ''debug_extractor'') in
        py_bind (call (Make_dir_if_not_exists debug_dir) (make_dir_if_not_exists h debug_dir)) (\<lambda>_.
        let debug_path = path_join debug_dir (path_stem image_path) in
        py_bind (call (Make_dir_if_not_exists debug_path) (make_dir_if_not_exists h debug_path)) (\<lambda>_.
        py_return (Some debug_path))))
      else py_return None)"

text \<open>Lines 76-80: the dict comprehension over \<^verbatim>\<open>form_variant.fields.items()\<close>, skipping \<^verbatim>\<open>None\<close>.\<close>

fun field_fills ::
  "('w, 'i, 'c, 'g, 'q, 'p, 't) helpers \<Rightarrow> 'g \<Rightarrow> (field \<times> 'q option) list \<Rightarrow> (field \<times> 'p) list
    \<Rightarrow> ('w, ('i, 'c, 'g, 'q, 'p, 't) event, (field \<times> 'p) list) prog" where
  "field_fills h grid [] acc = py_return acc"
| "field_fills h grid ((key, None) # rest) acc = field_fills h grid rest acc"
| "field_fills h grid ((key, Some v) # rest) acc =
     py_bind (call (Get_all_fill_percents v grid) (get_all_fill_percents h v grid)) (\<lambda>p.
     field_fills h grid rest (dict_set acc key p))"

text \<open>
  Lines 57-62: the inner \<^verbatim>\<open>try\<close>. \<open>None\<close> is the \<^verbatim>\<open>return None\<close> of the handler, which
  leaves the function. The message of line 61 is plain text around the name of the file and
  the text of the error; it is logged as printed.
\<close>

definition find_corners ::
  "('w, 'i, 'c, 'g, 'q, 'p, 't) helpers \<Rightarrow> path \<Rightarrow> 'i \<Rightarrow> path option
    \<Rightarrow> ('w, ('i, 'c, 'g, 'q, 'p, 't) event, 'c option) prog" where
  "find_corners h image_path prepared_image debug_path =
     py_except
       (py_bind (call (Find_corner_marks prepared_image debug_path)
                   (find_corner_marks h prepared_image debug_path)) (\<lambda>corners.
        py_return (Some corners)))
       (\<lambda>e. case e of
          CornerFindingError m \<Rightarrow>
            py_bind (log_event (Print (''Error finding corners in '' @ path_name image_path
                                        @ '': '' @ str_exn e))) (\<lambda>_.
            py_return None)
        | _ \<Rightarrow> py_raise e)"

text \<open>Lines 81-84: the list comprehension over \<^verbatim>\<open>form_variant.questions\<close>.\<close>

definition question_fills ::
  "('w, 'i, 'c, 'g, 'q, 'p, 't) helpers \<Rightarrow> 'g \<Rightarrow> 'q list
    \<Rightarrow> ('w, ('i, 'c, 'g, 'q, 'p, 't) event, 'p list) prog" where
  "question_fills h grid qs =
     py_map (\<lambda>question. call (Get_all_fill_percents question grid)
                            (get_all_fill_percents h question grid)) qs"

text \<open>
  Lines 94-99: the list comprehension over \<^verbatim>\<open>range(form_variant.num_questions)\<close>; the
  subscript \<^verbatim>\<open>answer_fill_percents[i]\<close> is evaluated before the call.
\<close>

definition read_answers ::
  "('w, 'i, 'c, 'g, 'q, 'p, 't) helpers \<Rightarrow> 'g \<Rightarrow> bool \<Rightarrow> 't \<Rightarrow> 'q form_variant \<Rightarrow> 'p list
    \<Rightarrow> int list \<Rightarrow> ('w, ('i, 'c, 'g, 'q, 'p, 't) event, string list) prog" where
  "read_answers h grid multi_answers_as_f threshold form_variant answer_fill_percents is =
     py_map (\<lambda>i. py_bind (py_index answer_fill_percents i) (\<lambda>p.
                  call (Read_answer_as_string i grid multi_answers_as_f threshold form_variant p)
                    (read_answer_as_string h i grid multi_answers_as_f threshold form_variant p)))
       is"

text \<open>Lines 101-106: the form code, read only when the field was measured.\<close>

definition read_form_code ::
  "('w, 'i, 'c, 'g, 'q, 'p, 't) helpers \<Rightarrow> 'g \<Rightarrow> 't \<Rightarrow> 'q form_variant \<Rightarrow> (field \<times> 'p) list
    \<Rightarrow> ('w, ('i, 'c, 'g, 'q, 'p, 't) event, string) prog" where
  "read_form_code h grid threshold form_variant field_fill_percents =
     (case map_of field_fill_percents TEST_FORM_CODE of
        None \<Rightarrow> py_return []
      | Some p \<Rightarrow>
          py_bind (call (Read_field_as_string TEST_FORM_CODE grid threshold form_variant p)
                     (read_field_as_string h TEST_FORM_CODE grid threshold form_variant p))
            (\<lambda>r. py_return (or_empty r)))"

text \<open>Lines 108-131: the output sheet is built, cleaned up and saved.\<close>

definition save_answer_key ::
  "('w, 'i, 'c, 'g, 'q, 'p, 't) helpers \<Rightarrow> path \<Rightarrow> path \<Rightarrow> bool \<Rightarrow> 'q form_variant
    \<Rightarrow> datetime option \<Rightarrow> string \<Rightarrow> string list
    \<Rightarrow> ('w, ('i, 'c, 'g, 'q, 'p, 't) event, path option) prog" where
  "save_answer_key h image_path output_folder empty_answers_as_g form_variant files_timestamp
       form_code answers =
     py_bind (log_event (OutputSheet_init [TEST_FORM_CODE, IMAGE_FILE] (num_questions form_variant)))
       (\<lambda>_.
     let keys_results = OutputSheet [TEST_FORM_CODE, IMAGE_FILE] (num_questions form_variant);
         field_data = [(TEST_FORM_CODE, form_code), (IMAGE_FILE, path_name image_path)]
     in
     py_bind (log_event (OutputSheet_add field_data answers)) (\<lambda>_.
     let keys_results = add keys_results field_data answers;
         replace_empty_with = (if empty_answers_as_g then ''G'' else [])
     in
     py_bind (log_event (OutputSheet_clean_up replace_empty_with)) (\<lambda>_.
     let keys_results = clean_up keys_results replace_empty_with in
     py_bind (call (OutputSheet_save keys_results output_folder ''extracted_answer_key'' False
                      files_timestamp)
                (save h keys_results output_folder ''extracted_answer_key'' False files_timestamp))
       (\<lambda>output_path.
     py_bind (py_print h (check_mark @ '' Answer key extracted from '' @ [CHR 0x27]
                            @ path_name image_path @ [CHR 0x27] @ '' and saved to ''
                            @ [CHR 0x27] @ path_name output_path @ [CHR 0x27])) (\<lambda>_.
     py_return (Some output_path))))))"

text \<open>Lines 65-106: the rest of the \<^verbatim>\<open>try\<close> block, once the corners are found.\<close>

definition decode_sheet ::
  "('w, 'i, 'c, 'g, 'q, 'p, 't) helpers \<Rightarrow> path \<Rightarrow> path \<Rightarrow> bool \<Rightarrow> bool \<Rightarrow> 'q form_variant
    \<Rightarrow> datetime option \<Rightarrow> path option \<Rightarrow> 'i \<Rightarrow> 'c
    \<Rightarrow> ('w, ('i, 'c, 'g, 'q, 'p, 't) event, path option) prog" where
  "decode_sheet h image_path output_folder multi_answers_as_f empty_answers_as_g form_variant
       files_timestamp debug_path prepared_image corners =
     py_bind (call (Dilate prepared_image debug_path) (dilate h prepared_image debug_path))
       (\<lambda>morphed_image.
     py_bind (call (Grid_init corners (GRID_HORIZONTAL_CELLS h) (GRID_VERTICAL_CELLS h)
                      morphed_image debug_path)
                (Grid h corners (GRID_HORIZONTAL_CELLS h) (GRID_VERTICAL_CELLS h)
                      morphed_image debug_path)) (\<lambda>grid.
     py_bind (field_fills h grid (form_fields form_variant) []) (\<lambda>field_fill_percents.
     py_bind (question_fills h grid (questions form_variant)) (\<lambda>answer_fill_percents.
     py_bind (call (Calculate_bubble_fill_threshold field_fill_percents answer_fill_percents
                      debug_path form_variant)
                (calculate_bubble_fill_threshold h field_fill_percents answer_fill_percents
                      debug_path form_variant)) (\<lambda>threshold.
     py_bind (read_answers h grid multi_answers_as_f threshold form_variant answer_fill_percents
                (py_range (num_questions form_variant))) (\<lambda>answers.
     py_bind (read_form_code h grid threshold form_variant field_fill_percents) (\<lambda>form_code.
     save_answer_key h image_path output_folder empty_answers_as_g form_variant files_timestamp
       form_code answers)))))))"

text \<open>Lines 51-131: the body of the outer \<^verbatim>\<open>try\<close>.\<close>

definition try_block ::
  "('w, 'i, 'c, 'g, 'q, 'p, 't) helpers \<Rightarrow> path \<Rightarrow> path \<Rightarrow> bool \<Rightarrow> bool \<Rightarrow> 'q form_variant
    \<Rightarrow> datetime option \<Rightarrow> path option
    \<Rightarrow> ('w, ('i, 'c, 'g, 'q, 'p, 't) event, path option) prog" where
  "try_block h image_path output_folder multi_answers_as_f empty_answers_as_g form_variant
       files_timestamp debug_path =
     py_bind (call (Get_image image_path debug_path) (get_image h image_path debug_path)) (\<lambda>image.
     py_bind (call (Prepare_scan_for_processing image debug_path)
                (prepare_scan_for_processing h image debug_path)) (\<lambda>prepared_image.
     py_bind (find_corners h image_path prepared_image debug_path) (\<lambda>found.
     case found of
       None \<Rightarrow> py_return None
     | Some corners \<Rightarrow>
         decode_sheet h image_path output_folder multi_answers_as_f empty_answers_as_g
           form_variant files_timestamp debug_path prepared_image corners)))"

text \<open>
  Lines 133-137: the outer handler. Its \<^verbatim>\<open>print\<close> is not guarded: an exception it raises
  leaves the function, whatever \<^verbatim>\<open>debug_mode_on\<close> is.
\<close>

definition on_exception ::
  "('w, 'i, 'c, 'g, 'q, 'p, 't) helpers \<Rightarrow> path \<Rightarrow> bool \<Rightarrow> exn
    \<Rightarrow> ('w, ('i, 'c, 'g, 'q, 'p, 't) event, path option) prog" where
  "on_exception h image_path debug_mode_on e =
     py_bind (py_print h (cross_mark @ '' Error extracting answer key from '' @ [CHR 0x27]
                            @ path_name image_path @ [CHR 0x27] @ '': '' @ str_exn e)) (\<lambda>_.
     if debug_mode_on then py_raise e else py_return None)"

definition extract_answer_key_from_image ::
  "('w, 'i, 'c, 'g, 'q, 'p, 't) helpers \<Rightarrow> path \<Rightarrow> path \<Rightarrow> bool \<Rightarrow> bool \<Rightarrow> 'q form_variant
    \<Rightarrow> datetime option \<Rightarrow> bool
    \<Rightarrow> ('w, ('i, 'c, 'g, 'q, 'p, 't) event, path option) prog" where
  "extract_answer_key_from_image h image_path output_folder multi_answers_as_f
       empty_answers_as_g form_variant files_timestamp debug_mode_on =
     py_bind (debug_setup h image_path output_folder files_timestamp debug_mode_on) (\<lambda>debug_path.
     py_except
       (try_block h image_path output_folder multi_answers_as_f empty_answers_as_g form_variant
          files_timestamp debug_path)
       (on_exception h image_path debug_mode_on))"

text \<open>
  Lines 140-181. The progress tracker is an optional object of which only \<^verbatim>\<open>set_status\<close>
  is called; \<open>None\<close> is a falsy tracker. A returned path is truthy.
\<close>

definition extract_answer_key_from_image_gui ::
  "('w, 'i, 'c, 'g, 'q, 'p, 't) helpers \<Rightarrow> path \<Rightarrow> path \<Rightarrow> bool \<Rightarrow> bool \<Rightarrow> 'q form_variant
    \<Rightarrow> datetime option \<Rightarrow> (string \<Rightarrow> bool \<Rightarrow> ('w, unit) effect) option \<Rightarrow> bool
    \<Rightarrow> ('w, ('i, 'c, 'g, 'q, 'p, 't) event, path option) prog" where
  "extract_answer_key_from_image_gui h image_path output_folder multi_answers_as_f
       empty_answers_as_g form_variant files_timestamp progress_tracker debug_mode_on =
     py_bind (case progress_tracker of
                None \<Rightarrow> py_return ()
              | Some set_status \<Rightarrow>
                  (let msg = ''Extracting answer key from '' @ [CHR 0x27] @ path_name image_path
                             @ [CHR 0x27] @ ''.''
                   in call (Set_status msg False) (set_status msg False))) (\<lambda>_.
     py_bind (extract_answer_key_from_image h image_path output_folder multi_answers_as_f
                empty_answers_as_g form_variant files_timestamp debug_mode_on) (\<lambda>result.
     py_bind (case progress_tracker of
                None \<Rightarrow> py_return ()
              | Some set_status \<Rightarrow>
                  (case result of
                     Some p \<Rightarrow>
                       (let msg = check_mark @ '' Answer key extracted and saved to '' @ [CHR 0x27]
                                  @ path_name p @ [CHR 0x27]
                        in call (Set_status msg False) (set_status msg False))
                   | None \<Rightarrow>
                       (let msg = cross_mark @ '' Failed to extract answer key from '' @ [CHR 0x27]
                                  @ path_name image_path @ [CHR 0x27]
                        in call (Set_status msg False) (set_status msg False)))) (\<lambda>_.
     py_return result)))"

section \<open>A sample set of collaborators\<close>

text \<open>
  Concrete collaborators on which the theorems below are instantiated. The world counts
  the calls made so far; images, corners, the grid and group descriptions are numbers,
  the fill percents of a group are a list of numbers and the threshold is a number; the
  standard output takes every message and is not counted.
  \<open>sample_decode\<close> marks the choices whose fill reaches the threshold and joins their
  letters, or gives \<^verbatim>\<open>F\<close> for several marks when they are to be collapsed.
  \<open>no_corner_helpers\<close> differ from \<open>sample_helpers\<close> in that no corners are found.
\<close>

definition sample_fills :: "nat \<Rightarrow> nat list" where
  "sample_fills q = (if q = 0 then [10, 95, 5] else if q = 1 then [5, 5, 5] else [80, 85, 5])"

definition sample_decode :: "bool \<Rightarrow> nat \<Rightarrow> nat list \<Rightarrow> string" where
  "sample_decode collapse t p =
     (let marked = map fst (filter (\<lambda>(l, f). t \<le> f) (zip ''ABCDE'' p))
      in if 1 < length marked \<and> collapse then ''F'' else marked)"

definition sample_helpers :: "(nat, nat, nat, nat, nat, nat list, nat) helpers" where
  "sample_helpers = \<lparr>
     format_timestamp_for_file = (\<lambda>ts w. (Inr ''t_'', Suc w)),
     make_dir_if_not_exists = (\<lambda>p w. (Inr (), Suc w)),
     get_image = (\<lambda>p sp w. (Inr 7, Suc w)),
     prepare_scan_for_processing = (\<lambda>i sp w. (Inr (Suc i), Suc w)),
     find_corner_marks = (\<lambda>i sp w. (Inr 4, Suc w)),
     dilate = (\<lambda>i sp w. (Inr (Suc i), Suc w)),
     GRID_HORIZONTAL_CELLS = 36,
     GRID_VERTICAL_CELLS = 48,
     Grid = (\<lambda>c x y i sp w. (Inr 1, Suc w)),
     get_all_fill_percents = (\<lambda>q g w. (Inr (sample_fills q), Suc w)),
     calculate_bubble_fill_threshold = (\<lambda>ffp afp sp fv w. (Inr 50, Suc w)),
     read_answer_as_string = (\<lambda>i g collapse t fv p w. (Inr (sample_decode collapse t p), Suc w)),
     read_field_as_string = (\<lambda>f g t fv p w. (Inr (Some (sample_decode False t p)), Suc w)),
     save = (\<lambda>sheet folder base sort ts w. (Inr (path_join folder (base @ ''.csv'')), Suc w)),
     print = (\<lambda>s w. (Inr (), w))\<rparr>"

definition sample_form :: "nat form_variant" where
  "sample_form = \<lparr>form_fields = [(TEST_FORM_CODE, Some 2), (Other_field ''LAST_NAME'', None)],
                   questions = [0, 1], num_questions = 2\<rparr>"

definition no_corner_helpers :: "(nat, nat, nat, nat, nat, nat list, nat) helpers" where
  "no_corner_helpers = sample_helpers\<lparr>find_corner_marks :=
     (\<lambda>i sp w. (Inl (CornerFindingError ''only 3 corners''), Suc w))\<rparr>"

section \<open>Exceptions in the log\<close>

text \<open>
  \<open>raised ev\<close> is the exception with which the call logged as \<open>ev\<close> ended, if it
  raised. \<open>error_message\<close> is the line the outer handler prints. With
  \<open>bad_grid_helpers\<close> the grid cannot be built; with \<open>narrow_output_helpers\<close>, moreover,
  the standard output takes ASCII only, as a console or a pipe with a legacy encoding
  does.
\<close>

definition failure :: "exn + 'a \<Rightarrow> exn option" where
  "failure r = (case r of Inl e \<Rightarrow> Some e | Inr _ \<Rightarrow> None)"

fun raised :: "('i, 'c, 'g, 'q, 'p, 't) event \<Rightarrow> exn option" where
  "raised (Print m) = None"
| "raised (Print_failed m e) = Some e"
| "raised (Set_status m b r) = failure r"
| "raised (Format_timestamp_for_file ts r) = failure r"
| "raised (Make_dir_if_not_exists p r) = failure r"
| "raised (Get_image p sp r) = failure r"
| "raised (Prepare_scan_for_processing i sp r) = failure r"
| "raised (Find_corner_marks i sp r) = failure r"
| "raised (Dilate i sp r) = failure r"
| "raised (Grid_init c x y i sp r) = failure r"
| "raised (Get_all_fill_percents q g r) = failure r"
| "raised (Calculate_bubble_fill_threshold ffp afp sp fv r) = failure r"
| "raised (Read_answer_as_string i g m t fv p r) = failure r"
| "raised (Read_field_as_string f g t fv p r) = failure r"
| "raised (OutputSheet_init cs n) = None"
| "raised (OutputSheet_add fd as) = None"
| "raised (OutputSheet_clean_up s) = None"
| "raised (OutputSheet_save sh p b s ts r) = failure r"

definition error_message :: "path \<Rightarrow> exn \<Rightarrow> string" where
  "error_message image_path e =
     cross_mark @ '' Error extracting answer key from '' @ [CHR 0x27] @ path_name image_path
       @ [CHR 0x27] @ '': '' @ str_exn e"

definition bad_grid_helpers :: "(nat, nat, nat, nat, nat, nat list, nat) helpers" where
  "bad_grid_helpers = sample_helpers\<lparr>Grid :=
     (\<lambda>c x y i sp w. (Inl (Exception ''degenerate grid''), Suc w))\<rparr>"

definition ascii_only :: "string \<Rightarrow> bool" where
  "ascii_only s = list_all (\<lambda>c. (of_char c :: nat) < 128) s"

definition narrow_output_helpers :: "(nat, nat, nat, nat, nat, nat list, nat) helpers" where
  "narrow_output_helpers = bad_grid_helpers\<lparr>print :=
     (\<lambda>s w. if ascii_only s then (Inr (), w)
            else (Inl (Exception ''UnicodeEncodeError: character maps to <undefined>''), w))\<rparr>"

section \<open>The log of a successful run\<close>

text \<open>
  The values a successful run passes from stage to stage, and the log each stage leaves.
  \<open>configured\<close> are the fields of the form variant that have a group description;
  \<open>fill_dict\<close> is the dict the comprehension of lines 76-80 builds from their fill percents.
\<close>

fun configured :: "(field \<times> 'q option) list \<Rightarrow> (field \<times> 'q) list" where
  "configured [] = []"
| "configured ((k, None) # kvs) = configured kvs"
| "configured ((k, Some q) # kvs) = (k, q) # configured kvs"

fun fill_dict :: "(field \<times> 'p) list \<Rightarrow> (field \<times> 'p) list \<Rightarrow> (field \<times> 'p) list" where
  "fill_dict acc [] = acc"
| "fill_dict acc ((k, p) # kps) = fill_dict (dict_set acc k p) kps"

definition measure_log :: "'g \<Rightarrow> 'q list \<Rightarrow> 'p list \<Rightarrow> ('i, 'c, 'g, 'q, 'p, 't) event list" where
  "measure_log grid qs ps = map (\<lambda>(q, p). Get_all_fill_percents q grid (Inr p)) (zip qs ps)"

definition answer_log ::
  "'g \<Rightarrow> bool \<Rightarrow> 't \<Rightarrow> 'q form_variant \<Rightarrow> 'p list \<Rightarrow> nat list \<Rightarrow> string list
    \<Rightarrow> ('i, 'c, 'g, 'q, 'p, 't) event list" where
  "answer_log grid multi_answers_as_f threshold form_variant answer_fill_percents ns answers =
     map (\<lambda>(n, a). Read_answer_as_string (int n) grid multi_answers_as_f threshold form_variant
                      (answer_fill_percents ! n) (Inr a)) (zip ns answers)"

text \<open>
  The messages of lines 130 and 134 are \<open>success_message\<close> and \<open>error_message\<close>.
\<close>

definition success_message :: "path \<Rightarrow> path \<Rightarrow> string" where
  "success_message image_path output_path =
     check_mark @ '' Answer key extracted from '' @ [CHR 0x27] @ path_name image_path @ [CHR 0x27]
       @ '' and saved to '' @ [CHR 0x27] @ path_name output_path @ [CHR 0x27]"

record ('i, 'c, 'g, 'p, 't) stage_values =
  v_image :: 'i
  v_prepared_image :: 'i
  v_corners :: 'c
  v_morphed_image :: 'i
  v_grid :: 'g
  v_field_fills :: "'p list"
  v_answer_fills :: "'p list"
  v_threshold :: 't
  v_answers :: "string list"
  v_form_code :: "string option"
  v_output_path :: path

definition corner_stage_log ::
  "path \<Rightarrow> path option \<Rightarrow> ('i, 'c, 'g, 'p, 't) stage_values \<Rightarrow> ('i, 'c, 'g, 'q, 'p, 't) event list" where
  "corner_stage_log image_path debug_path v =
     [Get_image image_path debug_path (Inr (v_image v)),
      Prepare_scan_for_processing (v_image v) debug_path (Inr (v_prepared_image v)),
      Find_corner_marks (v_prepared_image v) debug_path (Inr (v_corners v))]"

definition grid_stage_log ::
  "int \<Rightarrow> int \<Rightarrow> path option \<Rightarrow> ('i, 'c, 'g, 'p, 't) stage_values
    \<Rightarrow> ('i, 'c, 'g, 'q, 'p, 't) event list" where
  "grid_stage_log horizontal vertical debug_path v =
     [Dilate (v_prepared_image v) debug_path (Inr (v_morphed_image v)),
      Grid_init (v_corners v) horizontal vertical (v_morphed_image v) debug_path (Inr (v_grid v))]"

definition measure_stage_log ::
  "'q form_variant \<Rightarrow> ('i, 'c, 'g, 'p, 't) stage_values \<Rightarrow> ('i, 'c, 'g, 'q, 'p, 't) event list" where
  "measure_stage_log form_variant v =
     measure_log (v_grid v) (map snd (configured (form_fields form_variant))) (v_field_fills v)
     @ measure_log (v_grid v) (questions form_variant) (v_answer_fills v)"

definition pooled_field_fills ::
  "'q form_variant \<Rightarrow> ('i, 'c, 'g, 'p, 't) stage_values \<Rightarrow> (field \<times> 'p) list" where
  "pooled_field_fills form_variant v =
     fill_dict [] (zip (map fst (configured (form_fields form_variant))) (v_field_fills v))"

definition threshold_stage_log ::
  "'q form_variant \<Rightarrow> path option \<Rightarrow> ('i, 'c, 'g, 'p, 't) stage_values
    \<Rightarrow> ('i, 'c, 'g, 'q, 'p, 't) event list" where
  "threshold_stage_log form_variant debug_path v =
     [Calculate_bubble_fill_threshold (pooled_field_fills form_variant v) (v_answer_fills v)
        debug_path form_variant (Inr (v_threshold v))]"

definition decode_stage_log ::
  "bool \<Rightarrow> 'q form_variant \<Rightarrow> ('i, 'c, 'g, 'p, 't) stage_values
    \<Rightarrow> ('i, 'c, 'g, 'q, 'p, 't) event list" where
  "decode_stage_log multi_answers_as_f form_variant v =
     answer_log (v_grid v) multi_answers_as_f (v_threshold v) form_variant (v_answer_fills v)
       [0..<nat (num_questions form_variant)] (v_answers v)
     @ (case map_of (pooled_field_fills form_variant v) TEST_FORM_CODE of
          None \<Rightarrow> []
        | Some p \<Rightarrow> [Read_field_as_string TEST_FORM_CODE (v_grid v) (v_threshold v) form_variant p
                      (Inr (v_form_code v))])"

definition decoded_form_code ::
  "'q form_variant \<Rightarrow> ('i, 'c, 'g, 'p, 't) stage_values \<Rightarrow> string" where
  "decoded_form_code form_variant v =
     (case map_of (pooled_field_fills form_variant v) TEST_FORM_CODE of
        None \<Rightarrow> []
      | Some p \<Rightarrow> (case v_form_code v of None \<Rightarrow> [] | Some code \<Rightarrow> code))"

definition answer_key :: "path \<Rightarrow> bool \<Rightarrow> int \<Rightarrow> string \<Rightarrow> string list \<Rightarrow> output_sheet" where
  "answer_key image_path empty_answers_as_g n form_code answers =
     clean_up (add (OutputSheet [TEST_FORM_CODE, IMAGE_FILE] n)
                 [(TEST_FORM_CODE, form_code), (IMAGE_FILE, path_name image_path)] answers)
       (if empty_answers_as_g then ''G'' else [])"

definition record_log ::
  "path \<Rightarrow> path \<Rightarrow> bool \<Rightarrow> int \<Rightarrow> datetime option \<Rightarrow> string \<Rightarrow> string list \<Rightarrow> path
    \<Rightarrow> ('i, 'c, 'g, 'q, 'p, 't) event list" where
  "record_log image_path output_folder empty_answers_as_g n files_timestamp form_code answers
       output_path =
     [OutputSheet_init [TEST_FORM_CODE, IMAGE_FILE] n,
      OutputSheet_add [(TEST_FORM_CODE, form_code), (IMAGE_FILE, path_name image_path)] answers,
      OutputSheet_clean_up (if empty_answers_as_g then ''G'' else []),
      OutputSheet_save (answer_key image_path empty_answers_as_g n form_code answers)
        output_folder ''extracted_answer_key'' False files_timestamp (Inr output_path),
      Print (success_message image_path output_path)]"

definition record_stage_log ::
  "path \<Rightarrow> path \<Rightarrow> bool \<Rightarrow> 'q form_variant \<Rightarrow> datetime option
    \<Rightarrow> ('i, 'c, 'g, 'p, 't) stage_values \<Rightarrow> ('i, 'c, 'g, 'q, 'p, 't) event list" where
  "record_stage_log image_path output_folder empty_answers_as_g form_variant files_timestamp v =
     record_log image_path output_folder empty_answers_as_g (num_questions form_variant)
       files_timestamp (decoded_form_code form_variant v) (v_answers v) (v_output_path v)"

definition pipeline_log ::
  "int \<Rightarrow> int \<Rightarrow> path \<Rightarrow> path \<Rightarrow> bool \<Rightarrow> bool \<Rightarrow> 'q form_variant \<Rightarrow> datetime option
    \<Rightarrow> path option \<Rightarrow> ('i, 'c, 'g, 'p, 't) stage_values \<Rightarrow> ('i, 'c, 'g, 'q, 'p, 't) event list" where
  "pipeline_log horizontal vertical image_path output_folder multi_answers_as_f empty_answers_as_g
       form_variant files_timestamp debug_path v =
     corner_stage_log image_path debug_path v
     @ grid_stage_log horizontal vertical debug_path v
     @ measure_stage_log form_variant v
     @ threshold_stage_log form_variant debug_path v
     @ decode_stage_log multi_answers_as_f form_variant v
     @ record_stage_log image_path output_folder empty_answers_as_g form_variant files_timestamp v"

definition well_sized :: "'q form_variant \<Rightarrow> ('i, 'c, 'g, 'p, 't) stage_values \<Rightarrow> bool" where
  "well_sized form_variant v \<longleftrightarrow>
     length (v_field_fills v) = length (configured (form_fields form_variant)) \<and>
     length (v_answer_fills v) = length (questions form_variant) \<and>
     length (v_answers v) = nat (num_questions form_variant) \<and>
     nat (num_questions form_variant) \<le> length (questions form_variant)"

section \<open>What a log says about the record\<close>

text \<open>
  \<open>saved_sheets\<close> are the sheets the run saved (the calls of \<^verbatim>\<open>save\<close> that returned),
  \<open>decoded_answers\<close> the answers \<^verbatim>\<open>read_answer_as_string\<close> returned, in the order of the
  calls, \<open>answered_questions\<close> the same answers with the number of the question each was
  read for, and \<open>form_code_of\<close> the form code the run read: what the first call of
  \<^verbatim>\<open>read_field_as_string\<close> for \<^verbatim>\<open>TEST_FORM_CODE\<close> returned, the empty string when it
  returned \<^verbatim>\<open>None\<close> or was never called. A saved sheet is a complete record of the form
  variant when it has the two columns, one row with both field values (the second the name
  of the image file) and one answer for each of the \<^verbatim>\<open>num_questions\<close> questions.
  \<open>unprinted\<close> holds of a \<^verbatim>\<open>print\<close> that raised. \<open>measured\<close> gives the group whose fill
  percents a call measured, \<open>field_read\<close> the field a call of \<^verbatim>\<open>read_field_as_string\<close>
  was made for. \<open>two_field_form\<close> has a second field with a group of its own and
  more questions than \<^verbatim>\<open>num_questions\<close>.
\<close>

primrec collect :: "('a \<Rightarrow> 'b option) \<Rightarrow> 'a list \<Rightarrow> 'b list" where
  "collect f [] = []"
| "collect f (x # xs) = (case f x of None \<Rightarrow> collect f xs | Some y \<Rightarrow> y # collect f xs)"

fun saved :: "('i, 'c, 'g, 'q, 'p, 't) event \<Rightarrow> output_sheet option" where
  "saved (OutputSheet_save sheet folder base b ts (Inr p)) = Some sheet"
| "saved _ = None"

fun decoded :: "('i, 'c, 'g, 'q, 'p, 't) event \<Rightarrow> string option" where
  "decoded (Read_answer_as_string i g m t fv p (Inr a)) = Some a"
| "decoded _ = None"

fun answered :: "('i, 'c, 'g, 'q, 'p, 't) event \<Rightarrow> (int \<times> string) option" where
  "answered (Read_answer_as_string i g m t fv p (Inr a)) = Some (i, a)"
| "answered _ = None"

fun read_code :: "('i, 'c, 'g, 'q, 'p, 't) event \<Rightarrow> string option option" where
  "read_code (Read_field_as_string f g t fv p (Inr r)) = (if f = TEST_FORM_CODE then Some r else None)"
| "read_code _ = None"

fun unprinted :: "('i, 'c, 'g, 'q, 'p, 't) event \<Rightarrow> bool" where
  "unprinted (Print_failed m e) = True"
| "unprinted _ = False"

fun measured :: "('i, 'c, 'g, 'q, 'p, 't) event \<Rightarrow> 'q option" where
  "measured (Get_all_fill_percents q g (Inr p)) = Some q"
| "measured _ = None"

fun field_read :: "('i, 'c, 'g, 'q, 'p, 't) event \<Rightarrow> field option" where
  "field_read (Read_field_as_string f g t fv p r) = Some f"
| "field_read _ = None"

definition saved_sheets :: "('i, 'c, 'g, 'q, 'p, 't) event list \<Rightarrow> output_sheet list" where
  "saved_sheets t = collect saved t"

definition decoded_answers :: "('i, 'c, 'g, 'q, 'p, 't) event list \<Rightarrow> string list" where
  "decoded_answers t = collect decoded t"

definition answered_questions :: "('i, 'c, 'g, 'q, 'p, 't) event list \<Rightarrow> (int \<times> string) list" where
  "answered_questions t = collect answered t"

definition form_code_of :: "('i, 'c, 'g, 'q, 'p, 't) event list \<Rightarrow> string" where
  "form_code_of t =
     (case collect read_code t of
        [] \<Rightarrow> []
      | r # rs \<Rightarrow> (case r of None \<Rightarrow> [] | Some code \<Rightarrow> code))"

definition two_field_form :: "nat form_variant" where
  "two_field_form = \<lparr>form_fields = [(TEST_FORM_CODE, Some 2), (Other_field ''LAST_NAME'', Some 1)],
                      questions = [0, 1], num_questions = 1\<rparr>"

definition complete_record :: "path \<Rightarrow> 'q form_variant \<Rightarrow> output_sheet \<Rightarrow> bool" where
  "complete_record image_path form_variant sheet \<longleftrightarrow>
     sheet_columns sheet = [TEST_FORM_CODE, IMAGE_FILE] \<and>
     sheet_num_questions sheet = num_questions form_variant \<and>
     length (sheet_rows sheet) = 1 \<and>
     list_all (\<lambda>row. map fst (row_fields row) = [TEST_FORM_CODE, IMAGE_FILE] \<and>
                     map_of (row_fields row) IMAGE_FILE = Some (path_name image_path) \<and>
                     length (row_answers row) = nat (num_questions form_variant))
       (sheet_rows sheet)"

definition logs_only ::
  "('e \<Rightarrow> bool) \<Rightarrow> ('w, 'e, 'a) prog \<Rightarrow> bool" where
  "logs_only P m \<longleftrightarrow> (\<forall>w. list_all P (snd (snd (m w))))"

definition keeps_promise :: "('w, ('i, 'c, 'g, 'q, 'p, 't) event, path option) prog \<Rightarrow> bool" where
  "keeps_promise m \<longleftrightarrow>
     (\<forall>w. case m w of (r, w', t) \<Rightarrow>
        saved_sheets t = [] \<or> (\<exists>p. r = Inr (Some p)) \<or> list_ex unprinted t)"

text \<open>\<open>placeholders\<close> are the values the run passed to \<^verbatim>\<open>clean_up\<close> as \<^verbatim>\<open>replace_empty_with\<close>.\<close>

fun placeholder :: "('i, 'c, 'g, 'q, 'p, 't) event \<Rightarrow> string option" where
  "placeholder (OutputSheet_clean_up s) = Some s"
| "placeholder _ = None"

definition placeholders :: "('i, 'c, 'g, 'q, 'p, 't) event list \<Rightarrow> string list" where
  "placeholders t = collect placeholder t"

section \<open>Runs in which no call fails\<close>

text \<open>
  A log is \<open>clean\<close> when no call in it raised: every collaborator the run called returned
  and every message was printed. \<open>returns_if_clean Q m\<close>: whenever the log of \<open>m\<close> is
  clean, \<open>m\<close> has returned a value, and the value satisfies \<open>Q\<close>.
\<close>

definition clean :: "('i, 'c, 'g, 'q, 'p, 't) event list \<Rightarrow> bool" where
  "clean t \<longleftrightarrow> list_all (\<lambda>ev. raised ev = None) t"

definition returns_if_clean ::
  "('a \<Rightarrow> bool) \<Rightarrow> ('w, ('i, 'c, 'g, 'q, 'p, 't) event, 'a) prog \<Rightarrow> bool" where
  "returns_if_clean Q m \<longleftrightarrow>
     (\<forall>w. case m w of (r, w', t) \<Rightarrow> clean t \<longrightarrow> (\<exists>x. r = Inr x \<and> Q x))"

section \<open>The form code of a run\<close>

text \<open>
  \<open>falsy_read\<close> holds of every event but a reading of a field that returned a non-empty
  string or raised. \<open>added_fields\<close> are the field values the run passed to \<^verbatim>\<open>add\<close>.
  \<open>plain_form\<close> is a form variant whose form code field is not configured; in
  \<open>faint_form\<close> it is configured with a group in which no bubble is filled, so that the
  sample reader finds no mark and reads the empty string.
\<close>

fun falsy_read :: "('i, 'c, 'g, 'q, 'p, 't) event \<Rightarrow> bool" where
  "falsy_read (Read_field_as_string f g t fv p r) = (r = Inr None \<or> r = Inr (Some []))"
| "falsy_read _ = True"

fun added :: "('i, 'c, 'g, 'q, 'p, 't) event \<Rightarrow> (field \<times> string) list option" where
  "added (OutputSheet_add field_data answers) = Some field_data"
| "added _ = None"

definition added_fields :: "('i, 'c, 'g, 'q, 'p, 't) event list \<Rightarrow> (field \<times> string) list list" where
  "added_fields t = collect added t"

definition plain_form :: "nat form_variant" where
  "plain_form = \<lparr>form_fields = [(TEST_FORM_CODE, None), (Other_field ''LAST_NAME'', Some 2)],
                  questions = [0, 1], num_questions = 2\<rparr>"

definition faint_form :: "nat form_variant" where
  "faint_form = \<lparr>form_fields = [(TEST_FORM_CODE, Some 1), (Other_field ''LAST_NAME'', Some 2)],
                  questions = [0, 1], num_questions = 2\<rparr>"

section \<open>The threshold of a run\<close>

text \<open>
  A monitor reads the log of one call of the extractor, from its first event, and knows
  the form variant of the call. It starts with no measurement and no threshold. While it
  is \<open>Measuring\<close> it collects, in order, the fill percents the calls of the run return.
  The threshold may be computed once, and only from the full population measured in this
  run: as many measurements as the form variant has configured fields and questions, the
  dict holding those of the fields under their keys and the list being those of the
  questions (\<open>full_pool\<close>). Only then (\<open>Calibrated\<close>) may answers and fields be read
  and the sheet be saved: each answer from the measured fill percents of its question,
  each field from those pooled under its key, all against the very threshold that
  computation returned. After a failed measurement or calibration the run is
  \<open>Uncalibrated\<close>: nothing may be measured, computed, read or saved any more. \<open>None\<close> is
  a violation. \<open>neutral\<close> events do not concern the monitor.

  \<open>pools d kps\<close>: the dict \<open>d\<close> holds each key of the pairs \<open>kps\<close> once, with the
  value of its last pair.
\<close>

definition pools :: "('k \<times> 'v) list \<Rightarrow> ('k \<times> 'v) list \<Rightarrow> bool" where
  "pools d kps \<longleftrightarrow>
     distinct (map fst d) \<and> set (map fst d) = set (map fst kps) \<and>
     list_all (\<lambda>k. map_of d k = map_of (rev kps) k) (map fst kps)"

definition full_pool :: "'q form_variant \<Rightarrow> 'p list \<Rightarrow> (field \<times> 'p) list \<Rightarrow> 'p list \<Rightarrow> bool" where
  "full_pool fv ps ffp afp \<longleftrightarrow>
     (let keys = map fst (configured (form_fields fv)); k = length keys
      in length ps = k + length (questions fv) \<and> pools ffp (zip keys (take k ps)) \<and>
         afp = drop k ps)"

datatype ('p, 't) phase =
  Measuring "'p list" | Calibrated "(field \<times> 'p) list" "'p list" 't | Uncalibrated

fun threshold_step ::
  "'q form_variant \<Rightarrow> ('p, 't) phase \<Rightarrow> ('i, 'c, 'g, 'q, 'p, 't) event \<Rightarrow> ('p, 't) phase option" where
  "threshold_step fv (Measuring ps) (Get_all_fill_percents q g (Inr p)) = Some (Measuring (ps @ [p]))"
| "threshold_step fv (Measuring ps) (Get_all_fill_percents q g (Inl e)) = Some Uncalibrated"
| "threshold_step fv (Measuring ps) (Calculate_bubble_fill_threshold ffp afp sp fv' r) =
     (if fv' = fv \<and> full_pool fv ps ffp afp
      then Some (case r of Inr th \<Rightarrow> Calibrated ffp afp th | Inl e \<Rightarrow> Uncalibrated)
      else None)"
| "threshold_step fv (Calibrated ffp afp th) (Read_answer_as_string i g m u fv' p r) =
     (if u = th \<and> 0 \<le> i \<and> nat i < length afp \<and> p = afp ! nat i
      then Some (Calibrated ffp afp th) else None)"
| "threshold_step fv (Calibrated ffp afp th) (Read_field_as_string f g u fv' p r) =
     (if u = th \<and> map_of ffp f = Some p then Some (Calibrated ffp afp th) else None)"
| "threshold_step fv (Calibrated ffp afp th) (OutputSheet_save sheet folder base b ts r) =
     Some (Calibrated ffp afp th)"
| "threshold_step fv ph (Get_all_fill_percents q g r) = None"
| "threshold_step fv ph (Calculate_bubble_fill_threshold ffp afp sp fv' r) = None"
| "threshold_step fv ph (Read_answer_as_string i g m u fv' p r) = None"
| "threshold_step fv ph (Read_field_as_string f g u fv' p r) = None"
| "threshold_step fv ph (OutputSheet_save sheet folder base b ts r) = None"
| "threshold_step fv ph ev = Some ph"

fun threshold_monitor ::
  "'q form_variant \<Rightarrow> ('p, 't) phase \<Rightarrow> ('i, 'c, 'g, 'q, 'p, 't) event list
    \<Rightarrow> ('p, 't) phase option" where
  "threshold_monitor fv ph [] = Some ph"
| "threshold_monitor fv ph (ev # t) =
     (case threshold_step fv ph ev of None \<Rightarrow> None | Some ph' \<Rightarrow> threshold_monitor fv ph' t)"




section \<open>The progress tracker\<close>

text \<open>
  The two status lines of \<^verbatim>\<open>extract_answer_key_from_image_gui\<close> (lines 168, 177 and 179),
  the log without its status events, and a tracker whose \<^verbatim>\<open>set_status\<close> raises.
\<close>

definition start_status :: "path \<Rightarrow> string" where
  "start_status image_path =
     ''Extracting answer key from '' @ [CHR 0x27] @ path_name image_path @ [CHR 0x27] @ ''.''"

definition final_status :: "path \<Rightarrow> path option \<Rightarrow> string" where
  "final_status image_path result =
     (case result of
        Some p \<Rightarrow> check_mark @ '' Answer key extracted and saved to '' @ [CHR 0x27]
                   @ path_name p @ [CHR 0x27]
      | None \<Rightarrow> cross_mark @ '' Failed to extract answer key from '' @ [CHR 0x27]
                 @ path_name image_path @ [CHR 0x27])"

fun is_status :: "('i, 'c, 'g, 'q, 'p, 't) event \<Rightarrow> bool" where
  "is_status (Set_status m b r) = True"
| "is_status _ = False"

definition without_status ::
  "('i, 'c, 'g, 'q, 'p, 't) event list \<Rightarrow> ('i, 'c, 'g, 'q, 'p, 't) event list" where
  "without_status t = filter (\<lambda>ev. \<not> is_status ev) t"

definition broken_tracker :: "string \<Rightarrow> bool \<Rightarrow> (nat, unit) effect" where
  "broken_tracker msg b w = (Inl (Exception ''window closed''), w)"

definition counting_tracker :: "string \<Rightarrow> bool \<Rightarrow> (nat, unit) effect" where
  "counting_tracker msg b w = (Inr (), Suc w)"

lemmas run_defs = py_return_def py_raise_def py_bind_def py_except_def call_def log_event_def
  py_range_def py_index_def or_empty_def Let_def
lemmas extractor_defs = extract_answer_key_from_image_def debug_setup_def try_block_def
  find_corners_def decode_sheet_def question_fills_def read_answers_def read_form_code_def
  save_answer_key_def on_exception_def py_print_def
lemmas sheet_defs = OutputSheet_def add_def clean_up_def path_join_def path_name_def path_stem_def
lemmas sample_defs = sample_helpers_def sample_form_def sample_fills_def sample_decode_def
  no_corner_helpers_def

section \<open>Running programs\<close>

lemma py_return_run: "py_return x w = (Inr x, w, [])"
  by (simp add: py_return_def)

lemma py_raise_run: "py_raise e w = (Inl e, w, [])"
  by (simp add: py_raise_def)

lemma log_event_run: "log_event ev w = (Inr (), w, [ev])"
  by (simp add: log_event_def)

lemma call_run: "f w = (r, w1) \<Longrightarrow> call ev f w = (r, w1, [ev r])"
  by (simp add: call_def)

lemma py_bind_Inr: "m w = (Inr x, w1, t1) \<Longrightarrow> py_bind m f w = (case f x w1 of (r, w2, t2) \<Rightarrow> (r, w2, t1 @ t2))"
  by (simp add: py_bind_def)

lemma py_bind_Inl: "m w = (Inl e, w1, t1) \<Longrightarrow> py_bind m f w = (Inl e, w1, t1)"
  by (simp add: py_bind_def)

lemma py_except_Inr: "m w = (Inr x, w1, t1) \<Longrightarrow> py_except m f w = (Inr x, w1, t1)"
  by (simp add: py_except_def)

lemma py_except_Inl: "m w = (Inl e, w1, t1) \<Longrightarrow> py_except m f w = (case f e w1 of (r, w2, t2) \<Rightarrow> (r, w2, t1 @ t2))"
  by (simp add: py_except_def)

lemma py_bind_cases:
  assumes "py_bind m f w = (r, w2, t)"
  obtains (raised) e where "m w = (Inl e, w2, t)" and "r = Inl e"
  | (continued) x w1 t1 t2 where "m w = (Inr x, w1, t1)" and "f x w1 = (r, w2, t2)" and "t = t1 @ t2"
  using assms by (auto simp: py_bind_def split: prod.splits sum.splits)

lemma py_bind_InrE:
  assumes "py_bind m f w = (Inr y, w2, t)"
  obtains x w1 t1 t2 where "m w = (Inr x, w1, t1)" and "f x w1 = (Inr y, w2, t2)" and "t = t1 @ t2"
  using assms by (auto simp: py_bind_def split: prod.splits sum.splits)

lemma call_cases:
  assumes "call ev f w = (r, w1, t)"
  shows "f w = (r, w1) \<and> t = [ev r]"
  using assms by (auto simp: call_def split: prod.splits)

section \<open>Corner-finding errors\<close>





section \<open>The outer handler\<close>

lemma py_print_run:
  "print h s w = (r, w1) \<Longrightarrow>
     py_print h s w = (r, w1, [case r of Inl e \<Rightarrow> Print_failed s e | Inr _ \<Rightarrow> Print s])"
  by (simp add: py_print_def call_def)

lemma on_exception_run:
  assumes "print h (error_message image_path e) w = (r, w1)"
  shows "on_exception h image_path dbg e w =
     (case r of
        Inl x \<Rightarrow> (Inl x, w1, [Print_failed (error_message image_path e) x])
      | Inr _ \<Rightarrow> ((if dbg then Inl e else Inr None), w1, [Print (error_message image_path e)]))"
  using assms
  by (cases r)
     (simp_all add: on_exception_def error_message_def py_bind_def py_print_def call_def
        py_raise_def py_return_def)

lemma on_exception_cases:
  assumes "on_exception h image_path dbg e w = (r, w', t)"
  obtains (print_failed) x where "print h (error_message image_path e) w = (Inl x, w')"
      and "r = Inl x" and "t = [Print_failed (error_message image_path e) x]"
  | (printed) "print h (error_message image_path e) w = (Inr (), w')"
      and "r = (if dbg then Inl e else Inr None)" and "t = [Print (error_message image_path e)]"
proof -
  obtain r0 w1 where p: "print h (error_message image_path e) w = (r0, w1)"
    by (cases "print h (error_message image_path e) w")
  show thesis
  proof (cases r0)
    case (Inl x)
    with on_exception_run[OF p, of dbg] assms p print_failed show thesis by simp
  next
    case (Inr u)
    with on_exception_run[OF p, of dbg] assms p printed show thesis by simp
  qed
qed

lemma on_exception_no_path: "on_exception h image_path dbg e w \<noteq> (Inr (Some p), w', t)"
proof
  assume "on_exception h image_path dbg e w = (Inr (Some p), w', t)"
  then show False by (cases rule: on_exception_cases) (simp_all split: if_splits)
qed

lemma extract_run:
  assumes "debug_setup h image_path output_folder ts dbg w = (Inr dp, w0, t0)"
    and "try_block h image_path output_folder mu em fv ts dp w0 = (r1, w1, t1)"
  shows "extract_answer_key_from_image h image_path output_folder mu em fv ts dbg w =
     (case r1 of
        Inl x \<Rightarrow> (case on_exception h image_path dbg x w1 of (r2, w2, t2) \<Rightarrow> (r2, w2, t0 @ t1 @ t2))
      | Inr v \<Rightarrow> (Inr v, w1, t0 @ t1))"
  using assms
  by (cases r1)
     (simp_all add: extract_answer_key_from_image_def py_bind_def py_except_def split: prod.splits)

lemma extract_setup_raises:
  assumes "debug_setup h image_path output_folder ts dbg w = (Inl x, w0, t0)"
  shows "extract_answer_key_from_image h image_path output_folder mu em fv ts dbg w = (Inl x, w0, t0)"
  using assms by (simp add: extract_answer_key_from_image_def py_bind_def)

lemma debug_setup_off:
  "debug_setup h image_path output_folder ts False w = (Inr None, w, [])"
  by (simp add: debug_setup_def py_return_def)

lemma extract_cases:
  assumes "extract_answer_key_from_image h image_path output_folder mu em fv ts dbg w = (r, w', t)"
  obtains (setup_raised) x where "debug_setup h image_path output_folder ts dbg w = (Inl x, w', t)"
      and "r = Inl x"
  | (returned) dp w0 t0 v t1 where "debug_setup h image_path output_folder ts dbg w = (Inr dp, w0, t0)"
      and "try_block h image_path output_folder mu em fv ts dp w0 = (Inr v, w', t1)"
      and "r = Inr v" and "t = t0 @ t1"
  | (handled) dp w0 t0 x w1 t1 t2 where "debug_setup h image_path output_folder ts dbg w = (Inr dp, w0, t0)"
      and "try_block h image_path output_folder mu em fv ts dp w0 = (Inl x, w1, t1)"
      and "on_exception h image_path dbg x w1 = (r, w', t2)" and "t = t0 @ t1 @ t2"
proof -
  obtain rs w0 t0 where st: "debug_setup h image_path output_folder ts dbg w = (rs, w0, t0)"
    by (cases "debug_setup h image_path output_folder ts dbg w") auto
  show thesis
  proof (cases rs)
    case (Inl x)
    with st extract_setup_raises[of h image_path output_folder ts dbg w x w0 t0 mu em fv] assms
      setup_raised show thesis by simp
  next
    case (Inr dp)
    obtain r1 w1 t1 where tb: "try_block h image_path output_folder mu em fv ts dp w0 = (r1, w1, t1)"
      by (cases "try_block h image_path output_folder mu em fv ts dp w0") auto
    note ex = extract_run[OF st[unfolded Inr] tb]
    show thesis
    proof (cases r1)
      case (Inl x)
      obtain r2 w2 t2 where oe: "on_exception h image_path dbg x w1 = (r2, w2, t2)"
        by (cases "on_exception h image_path dbg x w1") auto
      with ex Inl assms have "r = r2" "w' = w2" "t = t0 @ t1 @ t2" by simp_all
      with handled[OF st[unfolded Inr] tb[unfolded Inl]] oe show thesis by simp
    next
      case (Inr v)
      with ex assms have "r = Inr v" "w' = w1" "t = t0 @ t1" by simp_all
      with returned[OF st[unfolded \<open>rs = Inr dp\<close>]] tb Inr show thesis by simp
    qed
  qed
qed

lemma extract_path_cases:
  assumes "extract_answer_key_from_image h image_path output_folder mu em fv ts dbg w
             = (Inr (Some p), w', t)"
  obtains dp w0 t0 t1 where "debug_setup h image_path output_folder ts dbg w = (Inr dp, w0, t0)"
      and "try_block h image_path output_folder mu em fv ts dp w0 = (Inr (Some p), w', t1)"
      and "t = t0 @ t1"
  using assms
proof (cases rule: extract_cases)
  case (setup_raised x)
  then show ?thesis by simp
next
  case (returned dp w0 t0 v t1)
  with that show ?thesis by simp
next
  case (handled dp w0 t0 x w1 t1 t2)
  with on_exception_no_path[of h image_path dbg x w1 p w' t2] show ?thesis by simp
qed

section \<open>Unexpected errors\<close>

lemma unexpected_error_handled:
  assumes "debug_setup h image_path output_folder ts dbg w = (Inr dp, w0, t0)"
    and "try_block h image_path output_folder mu em fv ts dp w0 = (Inl x, w1, t1)"
    and "print h (error_message image_path x) w1 = (Inr (), w2)"
  shows "extract_answer_key_from_image h image_path output_folder mu em fv ts dbg w =
     ((if dbg then Inl x else Inr None), w2, t0 @ t1 @ [Print (error_message image_path x)])"
  using extract_run[OF assms(1,2)] on_exception_run[OF assms(3), of dbg] by simp

lemma unexpected_error_unprinted:
  assumes "debug_setup h image_path output_folder ts dbg w = (Inr dp, w0, t0)"
    and "try_block h image_path output_folder mu em fv ts dp w0 = (Inl x, w1, t1)"
    and "print h (error_message image_path x) w1 = (Inl y, w2)"
  shows "extract_answer_key_from_image h image_path output_folder mu em fv ts dbg w =
     (Inl y, w2, t0 @ t1 @ [Print_failed (error_message image_path x) y])"
  using extract_run[OF assms(1,2)] on_exception_run[OF assms(3), of dbg] by simp

text \<open>
  C5 says that with diagnostic mode off every unexpected error is turned into the result
  \<^verbatim>\<open>None\<close> and a message naming the sheet. The handler of lines 133-137 is written to do
  so, but its \<^verbatim>\<open>print\<close> is inside the handler and unguarded: when the standard output
  cannot take the cross mark the message starts with, \<^verbatim>\<open>print\<close> raises and that exception
  leaves the function although \<^verbatim>\<open>debug_mode_on\<close> is false. Here the grid cannot be built,
  the output takes ASCII only, and the call raises instead of returning \<^verbatim>\<open>None\<close>.
\<close>

theorem unexpected_error_escapes_without_debug:
  "extract_answer_key_from_image narrow_output_helpers [''in'', ''sheet.png''] [''out''] True True
     sample_form None False 0 =
   (Inl (Exception ''UnicodeEncodeError: character maps to <undefined>''), 5,
    [Get_image [''in'', ''sheet.png''] None (Inr 7),
     Prepare_scan_for_processing 7 None (Inr 8),
     Find_corner_marks 8 None (Inr 4),
     Dilate 8 None (Inr 9),
     Grid_init 4 36 48 9 None (Inl (Exception ''degenerate grid'')),
     Print_failed (error_message [''in'', ''sheet.png''] (Exception ''degenerate grid''))
       (Exception ''UnicodeEncodeError: character maps to <undefined>'')])"
  by (simp add: extractor_defs run_defs sheet_defs sample_defs bad_grid_helpers_def
      narrow_output_helpers_def ascii_only_def error_message_def cross_mark_def)

section \<open>Successful runs\<close>

lemma field_fills_success:
  "field_fills h grid kvs acc w = (Inr ffp, w', t) \<Longrightarrow>
     \<exists>ps. length ps = length (configured kvs) \<and>
          t = measure_log grid (map snd (configured kvs)) ps \<and>
          ffp = fill_dict acc (zip (map fst (configured kvs)) ps)"
proof (induction h grid kvs acc arbitrary: w t rule: field_fills.induct)
  case (1 h grid acc)
  then show ?case by (simp add: py_return_def measure_log_def)
next
  case (2 h grid key rest acc)
  then show ?case by simp
next
  case (3 h grid key v rest acc)
  from "3.prems" obtain p w1 t1 t2 where
    c: "call (Get_all_fill_percents v grid) (get_all_fill_percents h v grid) w = (Inr p, w1, t1)"
    and r: "field_fills h grid rest (dict_set acc key p) w1 = (Inr ffp, w', t2)"
    and t: "t = t1 @ t2"
    by (auto elim: py_bind_InrE)
  from "3.IH"[OF r] obtain ps where ps: "length ps = length (configured rest)"
    "t2 = measure_log grid (map snd (configured rest)) ps"
    "ffp = fill_dict (dict_set acc key p) (zip (map fst (configured rest)) ps)"
    by blast
  from call_cases[OF c] have t1: "t1 = [Get_all_fill_percents v grid (Inr p)]" by simp
  have "length (p # ps) = length (configured ((key, Some v) # rest)) \<and>
        t = measure_log grid (map snd (configured ((key, Some v) # rest))) (p # ps) \<and>
        ffp = fill_dict acc (zip (map fst (configured ((key, Some v) # rest))) (p # ps))"
    using ps t t1 by (simp add: measure_log_def)
  then show ?case by blast
qed

lemma py_map_call_success:
  "py_map (\<lambda>x. call (ev x) (f x)) xs w = (Inr ys, w', t) \<Longrightarrow>
     length ys = length xs \<and> t = map (\<lambda>(x, y). ev x (Inr y)) (zip xs ys)"
proof (induction xs arbitrary: w w' ys t)
  case Nil
  then show ?case by (simp add: py_return_def)
next
  case (Cons x xs)
  from Cons.prems obtain y w1 t1 t2 where
    c: "call (ev x) (f x) w = (Inr y, w1, t1)"
    and r: "py_bind (py_map (\<lambda>x. call (ev x) (f x)) xs) (\<lambda>ys. py_return (y # ys)) w1 = (Inr ys, w', t2)"
    and t: "t = t1 @ t2"
    by (auto elim: py_bind_InrE)
  from r obtain ys' t3 t4 w2 where
    m: "py_map (\<lambda>x. call (ev x) (f x)) xs w1 = (Inr ys', w2, t3)"
    and e: "py_return (y # ys') w2 = (Inr ys, w', t4)" and t2: "t2 = t3 @ t4"
    by (auto elim: py_bind_InrE)
  from e have ys: "ys = y # ys'" and t4: "t4 = []" by (simp_all add: py_return_def)
  from call_cases[OF c] have t1: "t1 = [ev x (Inr y)]" by simp
  from Cons.IH[OF m] ys t t1 t2 t4 show ?case by simp
qed

lemma question_fills_success:
  "question_fills h grid qs w = (Inr afp, w', t) \<Longrightarrow>
     length afp = length qs \<and> t = measure_log grid qs afp"
  unfolding question_fills_def measure_log_def
  by (rule py_map_call_success)

lemma py_index_success:
  "py_index xs (int n) w = (Inr x, w', t) \<Longrightarrow> n < length xs \<and> x = xs ! n \<and> w' = w \<and> t = []"
  by (auto simp: py_index_def py_return_def py_raise_def split: if_splits)

lemma read_answers_success:
  "read_answers h grid mu th fv afp (map int ns) w = (Inr as, w', t) \<Longrightarrow>
     length as = length ns \<and> t = answer_log grid mu th fv afp ns as \<and> (\<forall>n\<in>set ns. n < length afp)"
proof (induction ns arbitrary: w w' as t)
  case Nil
  then show ?case by (simp add: read_answers_def py_return_def answer_log_def)
next
  case (Cons n ns)
  from Cons.prems obtain a w1 t1 t2 where
    c: "py_bind (py_index afp (int n)) (\<lambda>p.
          call (Read_answer_as_string (int n) grid mu th fv p)
            (read_answer_as_string h (int n) grid mu th fv p)) w = (Inr a, w1, t1)"
    and r: "py_bind (read_answers h grid mu th fv afp (map int ns)) (\<lambda>ys. py_return (a # ys)) w1
             = (Inr as, w', t2)"
    and t: "t = t1 @ t2"
    unfolding read_answers_def by (auto elim: py_bind_InrE)
  from c obtain p w0 t0 t0' where i: "py_index afp (int n) w = (Inr p, w0, t0)"
    and c': "call (Read_answer_as_string (int n) grid mu th fv p)
            (read_answer_as_string h (int n) grid mu th fv p) w0 = (Inr a, w1, t0')"
    and t1: "t1 = t0 @ t0'"
    by (auto elim: py_bind_InrE)
  from py_index_success[OF i] have n: "n < length afp" "p = afp ! n" "t0 = []" by simp_all
  from call_cases[OF c'] have t0': "t0' = [Read_answer_as_string (int n) grid mu th fv p (Inr a)]"
    by simp
  from r obtain as' t3 t4 w2 where
    m: "read_answers h grid mu th fv afp (map int ns) w1 = (Inr as', w2, t3)"
    and e: "py_return (a # as') w2 = (Inr as, w', t4)" and t2: "t2 = t3 @ t4"
    by (auto elim: py_bind_InrE)
  from e have as: "as = a # as'" and t4: "t4 = []" by (simp_all add: py_return_def)
  from Cons.IH[OF m] as t t1 t2 t4 t0' n show ?case by (simp add: answer_log_def)
qed


lemma bind_call_success:
  assumes "py_bind (call ev f) g w = (Inr y, w', t)"
  obtains x w1 t2 where "f w = (Inr x, w1)" and "g x w1 = (Inr y, w', t2)" and "t = ev (Inr x) # t2"
proof -
  from assms obtain x w1 t1 t2 where c: "call ev f w = (Inr x, w1, t1)"
    and g: "g x w1 = (Inr y, w', t2)" and t: "t = t1 @ t2"
    by (auto elim: py_bind_InrE)
  from call_cases[OF c] t have "f w = (Inr x, w1)" "t = ev (Inr x) # t2" by simp_all
  with g that show thesis by blast
qed

lemma bind_log_success:
  assumes "py_bind (log_event ev) g w = (Inr y, w', t)"
  obtains t2 where "g () w = (Inr y, w', t2)" and "t = ev # t2"
  using assms by (auto simp: py_bind_def log_event_def split: prod.splits)

lemma read_form_code_success:
  assumes "read_form_code h grid th fv ffp w = (Inr fc, w', t)"
  shows "\<exists>r. t = (case map_of ffp TEST_FORM_CODE of None \<Rightarrow> []
                   | Some p \<Rightarrow> [Read_field_as_string TEST_FORM_CODE grid th fv p (Inr r)]) \<and>
             fc = (case map_of ffp TEST_FORM_CODE of None \<Rightarrow> [] | Some p \<Rightarrow> or_empty r)"
proof (cases "map_of ffp TEST_FORM_CODE")
  case None
  with assms show ?thesis by (simp add: read_form_code_def py_return_def)
next
  case (Some p)
  with assms obtain r w1 t2 where
    "py_return (or_empty r) w1 = (Inr fc, w', t2)"
    "t = Read_field_as_string TEST_FORM_CODE grid th fv p (Inr r) # t2"
    by (auto simp: read_form_code_def elim: bind_call_success)
  with Some show ?thesis by (auto simp: py_return_def)
qed

lemma save_answer_key_run:
  assumes "save h (answer_key image_path em (num_questions fv) fc as) output_folder
             ''extracted_answer_key'' False ts w = (r, w1)"
  shows "save_answer_key h image_path output_folder em fv ts fc as w =
     (case r of
        Inl e \<Rightarrow> (Inl e, w1,
          [OutputSheet_init [TEST_FORM_CODE, IMAGE_FILE] (num_questions fv),
           OutputSheet_add [(TEST_FORM_CODE, fc), (IMAGE_FILE, path_name image_path)] as,
           OutputSheet_clean_up (if em then ''G'' else []),
           OutputSheet_save (answer_key image_path em (num_questions fv) fc as)
             output_folder ''extracted_answer_key'' False ts (Inl e)])
      | Inr p \<Rightarrow>
          (case print h (success_message image_path p) w1 of
             (Inl e, w2) \<Rightarrow> (Inl e, w2,
               butlast (record_log image_path output_folder em (num_questions fv) ts fc as p)
               @ [Print_failed (success_message image_path p) e])
           | (Inr u, w2) \<Rightarrow> (Inr (Some p), w2,
               record_log image_path output_folder em (num_questions fv) ts fc as p)))"
  using assms
  by (cases r)
     (simp_all add: save_answer_key_def Let_def answer_key_def
        success_message_def py_bind_def log_event_def call_def py_return_def py_print_def
        record_log_def split: prod.splits sum.splits)

lemma save_answer_key_success:
  assumes "save_answer_key h image_path output_folder em fv ts fc as w = (Inr v, w', t)"
  shows "\<exists>p. v = Some p \<and> t = record_log image_path output_folder em (num_questions fv) ts fc as p"
proof -
  obtain r w1 where s: "save h (answer_key image_path em (num_questions fv) fc as) output_folder
             ''extracted_answer_key'' False ts w = (r, w1)"
    by (cases "save h (answer_key image_path em (num_questions fv) fc as) output_folder
             ''extracted_answer_key'' False ts w")
  from save_answer_key_run[OF s] assms show ?thesis
    by (cases r) (auto split: prod.splits sum.splits)
qed

lemma decode_sheet_success:
  assumes "decode_sheet h image_path output_folder mu em fv ts dp prepared corners w = (Inr r, w', t)"
  shows "\<exists>morphed grid ps afp th as fc p.
     r = Some p \<and>
     length ps = length (configured (form_fields fv)) \<and>
     length afp = length (questions fv) \<and>
     length as = nat (num_questions fv) \<and>
     nat (num_questions fv) \<le> length (questions fv) \<and>
     t = [Dilate prepared dp (Inr morphed),
          Grid_init corners (GRID_HORIZONTAL_CELLS h) (GRID_VERTICAL_CELLS h) morphed dp (Inr grid)]
         @ measure_log grid (map snd (configured (form_fields fv))) ps
         @ measure_log grid (questions fv) afp
         @ [Calculate_bubble_fill_threshold
              (fill_dict [] (zip (map fst (configured (form_fields fv))) ps)) afp dp fv (Inr th)]
         @ answer_log grid mu th fv afp [0..<nat (num_questions fv)] as
         @ (case map_of (fill_dict [] (zip (map fst (configured (form_fields fv))) ps)) TEST_FORM_CODE of
              None \<Rightarrow> []
            | Some q \<Rightarrow> [Read_field_as_string TEST_FORM_CODE grid th fv q (Inr fc)])
         @ record_log image_path output_folder em (num_questions fv) ts
             (case map_of (fill_dict [] (zip (map fst (configured (form_fields fv))) ps)) TEST_FORM_CODE of
                None \<Rightarrow> [] | Some q \<Rightarrow> or_empty fc) as p"
proof -
  from assms obtain morphed w1 t1 where
    s1: "py_bind (call (Grid_init corners (GRID_HORIZONTAL_CELLS h) (GRID_VERTICAL_CELLS h) morphed dp)
                (Grid h corners (GRID_HORIZONTAL_CELLS h) (GRID_VERTICAL_CELLS h) morphed dp))
          (\<lambda>grid. py_bind (field_fills h grid (form_fields fv) [])
          (\<lambda>ffp. py_bind (question_fills h grid (questions fv))
          (\<lambda>afp. py_bind (call (Calculate_bubble_fill_threshold ffp afp dp fv)
                             (calculate_bubble_fill_threshold h ffp afp dp fv))
          (\<lambda>th. py_bind (read_answers h grid mu th fv afp (py_range (num_questions fv)))
          (\<lambda>as. py_bind (read_form_code h grid th fv ffp)
          (\<lambda>fc. save_answer_key h image_path output_folder em fv ts fc as)))))) w1 = (Inr r, w', t1)"
    and t: "t = Dilate prepared dp (Inr morphed) # t1"
    unfolding decode_sheet_def by (rule bind_call_success)
  from s1 obtain grid w2 t2 where
    s2: "py_bind (field_fills h grid (form_fields fv) [])
          (\<lambda>ffp. py_bind (question_fills h grid (questions fv))
          (\<lambda>afp. py_bind (call (Calculate_bubble_fill_threshold ffp afp dp fv)
                             (calculate_bubble_fill_threshold h ffp afp dp fv))
          (\<lambda>th. py_bind (read_answers h grid mu th fv afp (py_range (num_questions fv)))
          (\<lambda>as. py_bind (read_form_code h grid th fv ffp)
          (\<lambda>fc. save_answer_key h image_path output_folder em fv ts fc as))))) w2 = (Inr r, w', t2)"
    and t1: "t1 = Grid_init corners (GRID_HORIZONTAL_CELLS h) (GRID_VERTICAL_CELLS h) morphed dp (Inr grid) # t2"
    by (rule bind_call_success)
  from s2 obtain ffp w3 t3 t3' where
    f: "field_fills h grid (form_fields fv) [] w2 = (Inr ffp, w3, t3)"
    and s3: "py_bind (question_fills h grid (questions fv))
          (\<lambda>afp. py_bind (call (Calculate_bubble_fill_threshold ffp afp dp fv)
                             (calculate_bubble_fill_threshold h ffp afp dp fv))
          (\<lambda>th. py_bind (read_answers h grid mu th fv afp (py_range (num_questions fv)))
          (\<lambda>as. py_bind (read_form_code h grid th fv ffp)
          (\<lambda>fc. save_answer_key h image_path output_folder em fv ts fc as)))) w3 = (Inr r, w', t3')"
    and t2: "t2 = t3 @ t3'"
    by (rule py_bind_InrE)
  from field_fills_success[OF f] obtain ps where
    ps: "length ps = length (configured (form_fields fv))"
    "t3 = measure_log grid (map snd (configured (form_fields fv))) ps"
    "ffp = fill_dict [] (zip (map fst (configured (form_fields fv))) ps)"
    by blast
  from s3 obtain afp w4 t4 t4' where
    q: "question_fills h grid (questions fv) w3 = (Inr afp, w4, t4)"
    and s4: "py_bind (call (Calculate_bubble_fill_threshold ffp afp dp fv)
                             (calculate_bubble_fill_threshold h ffp afp dp fv))
          (\<lambda>th. py_bind (read_answers h grid mu th fv afp (py_range (num_questions fv)))
          (\<lambda>as. py_bind (read_form_code h grid th fv ffp)
          (\<lambda>fc. save_answer_key h image_path output_folder em fv ts fc as))) w4 = (Inr r, w', t4')"
    and t3': "t3' = t4 @ t4'"
    by (rule py_bind_InrE)
  from question_fills_success[OF q] have afp: "length afp = length (questions fv)"
    "t4 = measure_log grid (questions fv) afp" by simp_all
  from s4 obtain th w5 t5 where
    s5: "py_bind (read_answers h grid mu th fv afp (py_range (num_questions fv)))
          (\<lambda>as. py_bind (read_form_code h grid th fv ffp)
          (\<lambda>fc. save_answer_key h image_path output_folder em fv ts fc as)) w5 = (Inr r, w', t5)"
    and t4': "t4' = Calculate_bubble_fill_threshold ffp afp dp fv (Inr th) # t5"
    by (rule bind_call_success)
  from s5 obtain as w6 t6 t6' where
    a: "read_answers h grid mu th fv afp (py_range (num_questions fv)) w5 = (Inr as, w6, t6)"
    and s6: "py_bind (read_form_code h grid th fv ffp)
          (\<lambda>fc. save_answer_key h image_path output_folder em fv ts fc as) w6 = (Inr r, w', t6')"
    and t5: "t5 = t6 @ t6'"
    by (rule py_bind_InrE)
  from read_answers_success[OF a[unfolded py_range_def]] have as:
    "length as = nat (num_questions fv)"
    "t6 = answer_log grid mu th fv afp [0..<nat (num_questions fv)] as"
    "\<forall>n\<in>set [0..<nat (num_questions fv)]. n < length afp"
    by simp_all
  from as(3) afp(1) have le: "nat (num_questions fv) \<le> length (questions fv)"
    by (cases "nat (num_questions fv)") (auto simp: not_less_eq_eq)
  from s6 obtain fc w7 t7 t7' where
    c: "read_form_code h grid th fv ffp w6 = (Inr fc, w7, t7)"
    and s7: "save_answer_key h image_path output_folder em fv ts fc as w7 = (Inr r, w', t7')"
    and t6': "t6' = t7 @ t7'"
    by (rule py_bind_InrE)
  from read_form_code_success[OF c] obtain rf where rf:
    "t7 = (case map_of ffp TEST_FORM_CODE of None \<Rightarrow> []
           | Some q \<Rightarrow> [Read_field_as_string TEST_FORM_CODE grid th fv q (Inr rf)])"
    "fc = (case map_of ffp TEST_FORM_CODE of None \<Rightarrow> [] | Some q \<Rightarrow> or_empty rf)"
    by blast
  from save_answer_key_success[OF s7] obtain p where p: "r = Some p"
    "t7' = record_log image_path output_folder em (num_questions fv) ts fc as p"
    by blast
  show ?thesis
    apply (rule exI[of _ morphed], rule exI[of _ grid], rule exI[of _ ps], rule exI[of _ afp])
    apply (rule exI[of _ th], rule exI[of _ as], rule exI[of _ rf], rule exI[of _ p])
    using t t1 t2 t3' t4' t5 t6' ps afp as(1,2) le rf p
    by simp
qed


lemma find_corners_success:
  assumes "find_corners h image_path prepared dp w = (Inr (Some corners), w', t)"
  shows "t = [Find_corner_marks prepared dp (Inr corners)]"
proof -
  obtain r w1 where f: "find_corner_marks h prepared dp w = (r, w1)"
    by (cases "find_corner_marks h prepared dp w")
  show ?thesis
  proof (cases r)
    case (Inr c)
    with f assms show ?thesis
      by (auto simp add: find_corners_def py_except_def py_bind_def call_def py_return_def)
  next
    case (Inl e)
    with f assms show ?thesis
      by (cases e) (auto simp add: find_corners_def py_except_def py_bind_def call_def
          py_return_def py_raise_def log_event_def)
  qed
qed

lemma or_empty_eq: "or_empty r = (case r of None \<Rightarrow> [] | Some s \<Rightarrow> s)"
  by (simp add: or_empty_def split: option.split)

lemma try_block_success:
  assumes "try_block h image_path output_folder mu em fv ts dp w = (Inr (Some p), w', t)"
  shows "\<exists>v. well_sized fv v \<and> v_output_path v = p \<and>
             t = pipeline_log (GRID_HORIZONTAL_CELLS h) (GRID_VERTICAL_CELLS h) image_path
                   output_folder mu em fv ts dp v"
proof -
  from assms obtain img w1 t1 where
    s1: "py_bind (call (Prepare_scan_for_processing img dp) (prepare_scan_for_processing h img dp))
          (\<lambda>prepared. py_bind (find_corners h image_path prepared dp)
          (\<lambda>found. case found of None \<Rightarrow> py_return None
             | Some corners \<Rightarrow> decode_sheet h image_path output_folder mu em fv ts dp prepared corners))
          w1 = (Inr (Some p), w', t1)"
    and t: "t = Get_image image_path dp (Inr img) # t1"
    unfolding try_block_def by (rule bind_call_success)
  from s1 obtain prepared w2 t2 where
    s2: "py_bind (find_corners h image_path prepared dp)
          (\<lambda>found. case found of None \<Rightarrow> py_return None
             | Some corners \<Rightarrow> decode_sheet h image_path output_folder mu em fv ts dp prepared corners)
          w2 = (Inr (Some p), w', t2)"
    and t1: "t1 = Prepare_scan_for_processing img dp (Inr prepared) # t2"
    by (rule bind_call_success)
  from s2 obtain found w3 t3 t3' where
    fc: "find_corners h image_path prepared dp w2 = (Inr found, w3, t3)"
    and s3: "(case found of None \<Rightarrow> py_return None
             | Some corners \<Rightarrow> decode_sheet h image_path output_folder mu em fv ts dp prepared corners)
          w3 = (Inr (Some p), w', t3')"
    and t2: "t2 = t3 @ t3'"
    by (rule py_bind_InrE)
  from s3 obtain corners where found: "found = Some corners"
    and d: "decode_sheet h image_path output_folder mu em fv ts dp prepared corners w3
              = (Inr (Some p), w', t3')"
    by (cases found) (auto simp: py_return_def)
  from find_corners_success[OF fc[unfolded found]]
  have t3: "t3 = [Find_corner_marks prepared dp (Inr corners)]" .
  from decode_sheet_success[OF d] obtain morphed grid ps afp th as rf p' where
    r: "Some p = Some p'"
    and sz: "length ps = length (configured (form_fields fv))"
       "length afp = length (questions fv)"
       "length as = nat (num_questions fv)"
       "nat (num_questions fv) \<le> length (questions fv)"
    and t3': "t3' = [Dilate prepared dp (Inr morphed),
          Grid_init corners (GRID_HORIZONTAL_CELLS h) (GRID_VERTICAL_CELLS h) morphed dp (Inr grid)]
         @ measure_log grid (map snd (configured (form_fields fv))) ps
         @ measure_log grid (questions fv) afp
         @ [Calculate_bubble_fill_threshold
              (fill_dict [] (zip (map fst (configured (form_fields fv))) ps)) afp dp fv (Inr th)]
         @ answer_log grid mu th fv afp [0..<nat (num_questions fv)] as
         @ (case map_of (fill_dict [] (zip (map fst (configured (form_fields fv))) ps)) TEST_FORM_CODE of
              None \<Rightarrow> []
            | Some q \<Rightarrow> [Read_field_as_string TEST_FORM_CODE grid th fv q (Inr rf)])
         @ record_log image_path output_folder em (num_questions fv) ts
             (case map_of (fill_dict [] (zip (map fst (configured (form_fields fv))) ps)) TEST_FORM_CODE of
                None \<Rightarrow> [] | Some q \<Rightarrow> or_empty rf) as p'"
    by blast
  define v :: "('b, 'c, 'd, 'f, 'g) stage_values" where "v = \<lparr>v_image = img, v_prepared_image = prepared, v_corners = corners,
      v_morphed_image = morphed, v_grid = grid, v_field_fills = ps, v_answer_fills = afp,
      v_threshold = th, v_answers = as, v_form_code = rf, v_output_path = p\<rparr>"
  have "well_sized fv v" using sz by (simp add: well_sized_def v_def)
  moreover have "v_output_path v = p" by (simp add: v_def)
  moreover have "t = pipeline_log (GRID_HORIZONTAL_CELLS h) (GRID_VERTICAL_CELLS h) image_path
                   output_folder mu em fv ts dp v"
  proof -
    from r have pp: "p' = p" by simp
    have "t = Get_image image_path dp (Inr img) # Prepare_scan_for_processing img dp (Inr prepared)
               # Find_corner_marks prepared dp (Inr corners) # t3'"
      by (simp add: t t1 t2 t3)
    then show ?thesis
      unfolding t3' pp pipeline_log_def corner_stage_log_def grid_stage_log_def
        measure_stage_log_def threshold_stage_log_def decode_stage_log_def record_stage_log_def
        pooled_field_fills_def decoded_form_code_def v_def
      by (simp add: or_empty_eq split: option.split)
  qed
  ultimately show ?thesis by blast
qed


lemma extract_success_log:
  assumes "extract_answer_key_from_image h image_path output_folder multi_answers_as_f
      empty_answers_as_g form_variant files_timestamp debug_mode_on w = (Inr (Some p), w', t)"
  shows "\<exists>debug_path w0 t0 v.
     debug_setup h image_path output_folder files_timestamp debug_mode_on w = (Inr debug_path, w0, t0) \<and>
     well_sized form_variant v \<and> v_output_path v = p \<and>
     t = t0 @ corner_stage_log image_path debug_path v
            @ grid_stage_log (GRID_HORIZONTAL_CELLS h) (GRID_VERTICAL_CELLS h) debug_path v
            @ measure_stage_log form_variant v
            @ threshold_stage_log form_variant debug_path v
            @ decode_stage_log multi_answers_as_f form_variant v
            @ record_stage_log image_path output_folder empty_answers_as_g form_variant
                files_timestamp v"
proof -
  from assms obtain dp w0 t0 t1 where
    st: "debug_setup h image_path output_folder files_timestamp debug_mode_on w = (Inr dp, w0, t0)"
    and tb: "try_block h image_path output_folder multi_answers_as_f empty_answers_as_g
               form_variant files_timestamp dp w0 = (Inr (Some p), w', t1)"
    and t: "t = t0 @ t1"
    by (rule extract_path_cases)
  from try_block_success[OF tb] obtain v where
    "well_sized form_variant v" "v_output_path v = p"
    "t1 = pipeline_log (GRID_HORIZONTAL_CELLS h) (GRID_VERTICAL_CELLS h) image_path
                 output_folder multi_answers_as_f empty_answers_as_g form_variant
                 files_timestamp dp v"
    by blast
  with st t show ?thesis
    unfolding pipeline_log_def by blast
qed

text \<open>
  C4 (as amended). The log of every successful run is, after the calls that set up the
  debug folder in diagnostic mode, the log of the stages in this order: corner location
  (the image is read and prepared, the corners are looked for on the prepared image), grid
  construction (from those corners, on the dilated image), fill-percent measurement (one
  call for every configured field, then one for every question), threshold calibration
  (one call, on the dict of all measured field fills and the list of all measured question
  fills), decoding (one call per question number below \<^verbatim>\<open>num_questions\<close>, each with that
  threshold, then, of the fields, the form code only, with the same threshold and when it
  was measured), and the assembly of the record, which is cleaned up and saved.
\<close>

theorem stages_in_order:
  assumes "extract_answer_key_from_image h image_path output_folder multi_answers_as_f
      empty_answers_as_g form_variant files_timestamp debug_mode_on w = (Inr (Some p), w', t)"
  shows "\<exists>debug_path w0 t0 v.
     debug_setup h image_path output_folder files_timestamp debug_mode_on w = (Inr debug_path, w0, t0) \<and>
     well_sized form_variant v \<and> v_output_path v = p \<and>
     t = t0 @ corner_stage_log image_path debug_path v
            @ grid_stage_log (GRID_HORIZONTAL_CELLS h) (GRID_VERTICAL_CELLS h) debug_path v
            @ measure_stage_log form_variant v
            @ threshold_stage_log form_variant debug_path v
            @ decode_stage_log multi_answers_as_f form_variant v
            @ record_stage_log image_path output_folder empty_answers_as_g form_variant
                files_timestamp v"
  using assms by (rule extract_success_log)

lemma sample_form_simps:
  "form_fields sample_form = [(TEST_FORM_CODE, Some 2), (Other_field ''LAST_NAME'', None)]"
  "questions sample_form = [0, 1]"
  "num_questions sample_form = 2"
  by (simp_all add: sample_form_def)

lemma sample_run:
  "extract_answer_key_from_image sample_helpers [''in'', ''sheet.png''] [''out''] True True
     sample_form None False 0 =
   (Inr (Some [''out'', ''extracted_answer_key.csv'']), 13,
    [Get_image [''in'', ''sheet.png''] None (Inr 7),
     Prepare_scan_for_processing 7 None (Inr 8),
     Find_corner_marks 8 None (Inr 4),
     Dilate 8 None (Inr 9),
     Grid_init 4 36 48 9 None (Inr 1),
     Get_all_fill_percents 2 1 (Inr [80, 85, 5]),
     Get_all_fill_percents 0 1 (Inr [10, 95, 5]),
     Get_all_fill_percents 1 1 (Inr [5, 5, 5]),
     Calculate_bubble_fill_threshold [(TEST_FORM_CODE, [80, 85, 5])] [[10, 95, 5], [5, 5, 5]]
       None sample_form (Inr 50),
     Read_answer_as_string 0 1 True 50 sample_form [10, 95, 5] (Inr ''B''),
     Read_answer_as_string 1 1 True 50 sample_form [5, 5, 5] (Inr []),
     Read_field_as_string TEST_FORM_CODE 1 50 sample_form [80, 85, 5] (Inr (Some ''AB'')),
     OutputSheet_init [TEST_FORM_CODE, IMAGE_FILE] 2,
     OutputSheet_add [(TEST_FORM_CODE, ''AB''), (IMAGE_FILE, ''sheet.png'')] [''B'', []],
     OutputSheet_clean_up ''G'',
     OutputSheet_save
       \<lparr>sheet_columns = [TEST_FORM_CODE, IMAGE_FILE], sheet_num_questions = 2,
          sheet_rows = [\<lparr>row_fields = [(TEST_FORM_CODE, ''AB''), (IMAGE_FILE, ''sheet.png'')],
                         row_answers = [''B'', ''G'']\<rparr>]\<rparr>
       [''out''] ''extracted_answer_key'' False None (Inr [''out'', ''extracted_answer_key.csv'']),
     Print (success_message [''in'', ''sheet.png''] [''out'', ''extracted_answer_key.csv''])])"
  by code_simp


theorem stages_in_order_witness:
  "\<exists>debug_path w0 t0 v.
     debug_setup sample_helpers [''in'', ''sheet.png''] [''out''] None False 0 = (Inr debug_path, w0, t0) \<and>
     well_sized sample_form v \<and> v_output_path v = [''out'', ''extracted_answer_key.csv''] \<and>
     snd (snd (extract_answer_key_from_image sample_helpers [''in'', ''sheet.png''] [''out''] True True
                 sample_form None False 0)) =
       t0 @ corner_stage_log [''in'', ''sheet.png''] debug_path v
          @ grid_stage_log (GRID_HORIZONTAL_CELLS sample_helpers) (GRID_VERTICAL_CELLS sample_helpers)
              debug_path v
          @ measure_stage_log sample_form v
          @ threshold_stage_log sample_form debug_path v
          @ decode_stage_log True sample_form v
          @ record_stage_log [''in'', ''sheet.png''] [''out''] True sample_form None v"
  using stages_in_order[OF sample_run] by (simp add: sample_run)

text \<open>
  C4 as stated fails where it says that decoding is per question and per field. With
  \<open>two_field_form\<close> the run measures the groups of both fields and of both questions,
  and the threshold is computed on all four; but only the form code is read as a field
  (the last name never is) and only question 0 is read (\<^verbatim>\<open>num_questions\<close> is 1).
\<close>

theorem unread_field_counterexample:
  "fst (extract_answer_key_from_image sample_helpers [''in'', ''sheet.png''] [''out''] True True
          two_field_form None False 0) = Inr (Some [''out'', ''extracted_answer_key.csv'']) \<and>
   collect measured (snd (snd (extract_answer_key_from_image sample_helpers
          [''in'', ''sheet.png''] [''out''] True True two_field_form None False 0))) = [2, 1, 0, 1] \<and>
   collect field_read (snd (snd (extract_answer_key_from_image sample_helpers
          [''in'', ''sheet.png''] [''out''] True True two_field_form None False 0))) = [TEST_FORM_CODE] \<and>
   map fst (answered_questions (snd (snd (extract_answer_key_from_image sample_helpers
          [''in'', ''sheet.png''] [''out''] True True two_field_form None False 0)))) = [0]"
  by code_simp

section \<open>The saved record\<close>

lemma collect_append [simp]: "collect f (xs @ ys) = collect f xs @ collect f ys"
  by (induction xs) (simp_all split: option.split)

lemma collect_none: "list_all (\<lambda>x. f x = None) xs \<Longrightarrow> collect f xs = []"
  by (induction xs) simp_all

lemma collect_map_none: "(\<And>x. f (g x) = None) \<Longrightarrow> collect f (map g xs) = []"
  by (induction xs) simp_all

lemma logs_onlyD: "logs_only P m \<Longrightarrow> m w = (r, w', t) \<Longrightarrow> list_all P t"
  unfolding logs_only_def by (metis snd_conv)

lemma logs_only_return [simp]: "logs_only P (py_return x)"
  by (simp add: logs_only_def py_return_def)

lemma logs_only_raise [simp]: "logs_only P (py_raise e)"
  by (simp add: logs_only_def py_raise_def)

lemma logs_only_log: "P ev \<Longrightarrow> logs_only P (log_event ev)"
  by (simp add: logs_only_def log_event_def)

lemma logs_only_call: "(\<And>w. P (ev (fst (f w)))) \<Longrightarrow> logs_only P (call ev f)"
  by (simp add: logs_only_def call_def split: prod.split) (metis fst_conv)

lemma logs_only_bind:
  assumes "logs_only P m" and "\<And>x. logs_only P (f x)"
  shows "logs_only P (py_bind m f)"
  unfolding logs_only_def
proof
  fix w
  obtain r w1 t1 where m: "m w = (r, w1, t1)" by (cases "m w")
  from logs_onlyD[OF assms(1) m] have p1: "list_all P t1" .
  show "list_all P (snd (snd (py_bind m f w)))"
  proof (cases r)
    case (Inl e)
    with m p1 show ?thesis by (simp add: py_bind_def)
  next
    case (Inr x)
    obtain r2 w2 t2 where f: "f x w1 = (r2, w2, t2)" by (cases "f x w1")
    from logs_onlyD[OF assms(2) f] p1 m Inr f show ?thesis by (simp add: py_bind_def)
  qed
qed

lemma logs_only_except:
  assumes "logs_only P m" and "\<And>e. logs_only P (f e)"
  shows "logs_only P (py_except m f)"
  unfolding logs_only_def
proof
  fix w
  obtain r w1 t1 where m: "m w = (r, w1, t1)" by (cases "m w")
  from logs_onlyD[OF assms(1) m] have p1: "list_all P t1" .
  show "list_all P (snd (snd (py_except m f w)))"
  proof (cases r)
    case (Inr x)
    with m p1 show ?thesis by (simp add: py_except_def)
  next
    case (Inl e)
    obtain r2 w2 t2 where f: "f e w1 = (r2, w2, t2)" by (cases "f e w1")
    from logs_onlyD[OF assms(2) f] p1 m Inl f show ?thesis by (simp add: py_except_def)
  qed
qed

lemma logs_only_map: "(\<And>x. logs_only P (f x)) \<Longrightarrow> logs_only P (py_map f xs)"
  by (induction xs) (simp_all add: logs_only_bind)

lemma logs_only_index [simp]: "logs_only P (py_index xs i)"
  by (simp add: py_index_def Let_def)

lemma logs_only_field_fills:
  "(\<And>q g r. P (Get_all_fill_percents q g r)) \<Longrightarrow> logs_only P (field_fills h grid kvs acc)"
  by (induction h grid kvs acc rule: field_fills.induct)
     (simp_all add: logs_only_bind logs_only_call)

lemma logs_only_find_corners:
  "(\<And>i sp r. P (Find_corner_marks i sp r)) \<Longrightarrow> (\<And>m. P (Print m)) \<Longrightarrow>
     logs_only P (find_corners h image_path prepared dp)"
  by (simp add: find_corners_def logs_only_except logs_only_bind logs_only_call logs_only_log
      split: exn.split)

lemma logs_only_print:
  "(\<And>m. P (Print m)) \<Longrightarrow> (\<And>m e. P (Print_failed m e)) \<Longrightarrow> logs_only P (py_print h s)"
  unfolding py_print_def by (rule logs_only_call) (simp split: sum.split)

lemma logs_only_on_exception:
  "(\<And>m. P (Print m)) \<Longrightarrow> (\<And>m e. P (Print_failed m e)) \<Longrightarrow>
     logs_only P (on_exception h image_path dbg e)"
  unfolding on_exception_def by (intro logs_only_bind logs_only_print) simp_all

lemma logs_only_debug_setup:
  "(\<And>ts r. P (Format_timestamp_for_file ts r)) \<Longrightarrow> (\<And>p r. P (Make_dir_if_not_exists p r)) \<Longrightarrow>
     logs_only P (debug_setup h image_path output_folder ts dbg)"
  by (simp add: debug_setup_def Let_def logs_only_bind logs_only_call)


lemma keeps_promiseD:
  "keeps_promise m \<Longrightarrow> m w = (r, w', t) \<Longrightarrow>
     saved_sheets t = [] \<or> (\<exists>p. r = Inr (Some p)) \<or> list_ex unprinted t"
  unfolding keeps_promise_def by (auto split: prod.splits)

lemma keeps_promise_bind:
  assumes "logs_only (\<lambda>ev. saved ev = None) m" and "\<And>x. keeps_promise (f x)"
  shows "keeps_promise (py_bind m f)"
  unfolding keeps_promise_def
proof
  fix w
  obtain r w1 t1 where m: "m w = (r, w1, t1)" by (cases "m w")
  from logs_onlyD[OF assms(1) m] have p1: "saved_sheets t1 = []"
    by (simp add: saved_sheets_def collect_none)
  show "case py_bind m f w of (r, w', t) \<Rightarrow>
          saved_sheets t = [] \<or> (\<exists>p. r = Inr (Some p)) \<or> list_ex unprinted t"
  proof (cases r)
    case (Inl e)
    with m p1 show ?thesis by (simp add: py_bind_def)
  next
    case (Inr x)
    obtain r2 w2 t2 where f: "f x w1 = (r2, w2, t2)" by (cases "f x w1")
    from keeps_promiseD[OF assms(2) f] p1 m Inr f show ?thesis
      by (auto simp: py_bind_def saved_sheets_def)
  qed
qed

lemma keeps_promise_save_answer_key:
  "keeps_promise (save_answer_key h image_path output_folder em fv ts fc as)"
  unfolding keeps_promise_def
proof
  fix w
  obtain r w1 where s: "save h (answer_key image_path em (num_questions fv) fc as) output_folder
             ''extracted_answer_key'' False ts w = (r, w1)"
    by (cases "save h (answer_key image_path em (num_questions fv) fc as) output_folder
             ''extracted_answer_key'' False ts w")
  show "case save_answer_key h image_path output_folder em fv ts fc as w of
          (r, w', t) \<Rightarrow> saved_sheets t = [] \<or> (\<exists>p. r = Inr (Some p)) \<or> list_ex unprinted t"
    by (cases r)
       (simp_all add: save_answer_key_run[OF s] saved_sheets_def split: prod.split sum.split)
qed

lemma keeps_promise_decode_sheet:
  "keeps_promise (decode_sheet h image_path output_folder mu em fv ts dp prepared corners)"
  unfolding decode_sheet_def question_fills_def read_answers_def read_form_code_def
  by (intro keeps_promise_bind keeps_promise_save_answer_key logs_only_call logs_only_bind
      logs_only_map logs_only_field_fills logs_only_index)
     (simp_all add: logs_only_bind logs_only_call split: option.split)

lemma keeps_promise_try_block:
  "keeps_promise (try_block h image_path output_folder mu em fv ts dp)"
proof -
  have n: "keeps_promise (py_return None :: ('a, ('b, 'c, 'd, 'e, 'f, 'g) event, path option) prog)"
    by (simp add: keeps_promise_def py_return_def saved_sheets_def)
  show ?thesis
    unfolding try_block_def
    by (intro keeps_promise_bind logs_only_call logs_only_find_corners)
       (simp_all add: n keeps_promise_decode_sheet split: option.split)
qed


lemma saved_measure_log [simp]: "collect saved (measure_log grid qs ps) = []"
  unfolding measure_log_def by (rule collect_map_none) (simp split: prod.split)

lemma decoded_measure_log [simp]: "collect decoded (measure_log grid qs ps) = []"
  unfolding measure_log_def by (rule collect_map_none) (simp split: prod.split)

lemma answered_measure_log [simp]: "collect answered (measure_log grid qs ps) = []"
  unfolding measure_log_def by (rule collect_map_none) (simp split: prod.split)

lemma read_code_measure_log [simp]: "collect read_code (measure_log grid qs ps) = []"
  unfolding measure_log_def by (rule collect_map_none) (simp split: prod.split)

lemma saved_answer_log [simp]: "collect saved (answer_log grid mu th fv afp ns as) = []"
  unfolding answer_log_def by (rule collect_map_none) (simp split: prod.split)

lemma read_code_answer_log [simp]: "collect read_code (answer_log grid mu th fv afp ns as) = []"
  unfolding answer_log_def by (rule collect_map_none) (simp split: prod.split)

lemma decoded_answer_log:
  "length as = length ns \<Longrightarrow> collect decoded (answer_log grid mu th fv afp ns as) = as"
  unfolding answer_log_def by (induction as ns rule: list_induct2) simp_all

lemma answered_answer_log:
  "length as = length ns \<Longrightarrow>
     collect answered (answer_log grid mu th fv afp ns as) = zip (map int ns) as"
  unfolding answer_log_def by (induction as ns rule: list_induct2) simp_all

lemma saved_pipeline_log:
  "collect saved (pipeline_log hc vc image_path output_folder mu em fv ts dp v) =
     [answer_key image_path em (num_questions fv) (decoded_form_code fv v) (v_answers v)]"
  by (simp add: pipeline_log_def corner_stage_log_def grid_stage_log_def measure_stage_log_def
      threshold_stage_log_def decode_stage_log_def record_stage_log_def record_log_def
      split: option.split)

lemma decoded_pipeline_log:
  "well_sized fv v \<Longrightarrow>
   collect decoded (pipeline_log hc vc image_path output_folder mu em fv ts dp v) = v_answers v"
  by (simp add: pipeline_log_def corner_stage_log_def grid_stage_log_def measure_stage_log_def
      threshold_stage_log_def decode_stage_log_def record_stage_log_def record_log_def
      decoded_answer_log well_sized_def split: option.split)

lemma answered_pipeline_log:
  "well_sized fv v \<Longrightarrow>
   collect answered (pipeline_log hc vc image_path output_folder mu em fv ts dp v) =
     zip (py_range (num_questions fv)) (v_answers v)"
  by (simp add: pipeline_log_def corner_stage_log_def grid_stage_log_def measure_stage_log_def
      threshold_stage_log_def decode_stage_log_def record_stage_log_def record_log_def
      answered_answer_log well_sized_def py_range_def split: option.split)

lemma read_code_pipeline_log:
  "collect read_code (pipeline_log hc vc image_path output_folder mu em fv ts dp v) =
     (case map_of (pooled_field_fills fv v) TEST_FORM_CODE of
        None \<Rightarrow> [] | Some p \<Rightarrow> [v_form_code v])"
  by (simp add: pipeline_log_def corner_stage_log_def grid_stage_log_def measure_stage_log_def
      threshold_stage_log_def decode_stage_log_def record_stage_log_def record_log_def
      split: option.split)

lemma extract_success_record:
  assumes "extract_answer_key_from_image h image_path output_folder mu em fv ts dbg w
             = (Inr (Some p), w', t)"
  shows "saved_sheets t = [answer_key image_path em (num_questions fv) (form_code_of t)
                             (decoded_answers t)] \<and>
         answered_questions t = zip (py_range (num_questions fv)) (decoded_answers t) \<and>
         length (decoded_answers t) = nat (num_questions fv)"
proof -
  from extract_success_log[OF assms] obtain dp w0 t0 v where
    st: "debug_setup h image_path output_folder ts dbg w = (Inr dp, w0, t0)"
    and ws: "well_sized fv v"
    and t: "t = t0 @ pipeline_log (GRID_HORIZONTAL_CELLS h) (GRID_VERTICAL_CELLS h) image_path
                       output_folder mu em fv ts dp v"
    unfolding pipeline_log_def by blast
  have "list_all (\<lambda>ev. saved ev = None) t0"
    by (rule logs_onlyD[OF logs_only_debug_setup st]) simp_all
  then have s0: "collect saved t0 = []" by (rule collect_none)
  have "list_all (\<lambda>ev. decoded ev = None) t0"
    by (rule logs_onlyD[OF logs_only_debug_setup st]) simp_all
  then have d0: "collect decoded t0 = []" by (rule collect_none)
  have "list_all (\<lambda>ev. answered ev = None) t0"
    by (rule logs_onlyD[OF logs_only_debug_setup st]) simp_all
  then have a0: "collect answered t0 = []" by (rule collect_none)
  have "list_all (\<lambda>ev. read_code ev = None) t0"
    by (rule logs_onlyD[OF logs_only_debug_setup st]) simp_all
  then have c0: "collect read_code t0 = []" by (rule collect_none)
  have d: "decoded_answers t = v_answers v"
    by (simp add: decoded_answers_def t d0 decoded_pipeline_log[OF ws])
  have c: "form_code_of t = decoded_form_code fv v"
    by (simp add: form_code_of_def t c0 read_code_pipeline_log decoded_form_code_def
        split: option.split)
  have "saved_sheets t = [answer_key image_path em (num_questions fv) (form_code_of t)
                            (decoded_answers t)]"
    by (simp add: d c) (simp add: saved_sheets_def t s0 saved_pipeline_log)
  moreover have "answered_questions t = zip (py_range (num_questions fv)) (decoded_answers t)"
    by (simp add: d) (simp add: answered_questions_def t a0 answered_pipeline_log[OF ws])
  moreover have "length (decoded_answers t) = nat (num_questions fv)"
    using ws by (simp add: d well_sized_def)
  ultimately show ?thesis by blast
qed

lemma complete_answer_key:
  "length as = nat (num_questions fv) \<Longrightarrow>
     complete_record image_path fv (answer_key image_path em (num_questions fv) fc as)"
  by (simp add: complete_record_def answer_key_def OutputSheet_def add_def clean_up_def)

lemma raise_needs_debug:
  assumes "extract_answer_key_from_image h image_path output_folder mu em fv ts dbg w = (Inl e, w', t)"
    and "\<not> list_ex unprinted t"
  shows "dbg"
  using assms(1)
proof (cases rule: extract_cases)
  case (setup_raised x)
  then show ?thesis
    using debug_setup_off[of h image_path output_folder ts w] by (cases dbg) auto
next
  case (returned dp w0 t0 v t1)
  then show ?thesis by simp
next
  case (handled dp w0 t0 x w1 t1 t2)
  from handled(3) show ?thesis
  proof (cases rule: on_exception_cases)
    case (print_failed y)
    with handled(4) assms(2) show ?thesis by simp
  next
    case printed
    then show ?thesis by (cases dbg) simp_all
  qed
qed

lemma extract_keeps_promise:
  assumes "extract_answer_key_from_image h image_path output_folder mu em fv ts dbg w = (r, w', t)"
  shows "saved_sheets t = [] \<or> (\<exists>p. r = Inr (Some p)) \<or> list_ex unprinted t"
  using assms
proof (cases rule: extract_cases)
  case (setup_raised x)
  have "list_all (\<lambda>ev. saved ev = None) t"
    by (rule logs_onlyD[OF logs_only_debug_setup setup_raised(1)]) simp_all
  then show ?thesis unfolding saved_sheets_def by (simp add: collect_none)
next
  case (returned dp w0 t0 v t1)
  have "list_all (\<lambda>ev. saved ev = None) t0"
    by (rule logs_onlyD[OF logs_only_debug_setup returned(1)]) simp_all
  then have s0: "saved_sheets t0 = []" unfolding saved_sheets_def by (rule collect_none)
  from keeps_promiseD[OF keeps_promise_try_block returned(2)] returned(3,4) s0 show ?thesis
    by (auto simp: saved_sheets_def)
next
  case (handled dp w0 t0 x w1 t1 t2)
  have "list_all (\<lambda>ev. saved ev = None) t0"
    by (rule logs_onlyD[OF logs_only_debug_setup handled(1)]) simp_all
  then have s0: "saved_sheets t0 = []" unfolding saved_sheets_def by (rule collect_none)
  have "list_all (\<lambda>ev. saved ev = None) t2"
    by (rule logs_onlyD[OF logs_only_on_exception handled(3)]) simp_all
  then have s2: "saved_sheets t2 = []" unfolding saved_sheets_def by (rule collect_none)
  from keeps_promiseD[OF keeps_promise_try_block handled(2)] handled(4) s0 s2 show ?thesis
    by (auto simp: saved_sheets_def)
qed

text \<open>
  C3 (as amended). Take a run of the extractor in which every message was printed. It
  ends in one of three ways. It returns the path of a saved sheet; then it saved exactly
  one sheet, and that sheet is the complete record of what the run decoded: the two
  columns, one row with the form code the run read and the name of the image file, and
  the answers the run read for the questions \<open>0, \<dots>, num_questions - 1\<close>, one each and in
  this order, empty ones replaced by the placeholder. Or it returns \<^verbatim>\<open>None\<close>, or (in
  diagnostic mode only) it raises; in both cases no sheet was saved. The sheet is the
  output sheet as the spec describes it.
\<close>

theorem complete_record_or_failure:
  assumes "extract_answer_key_from_image h image_path output_folder multi_answers_as_f
      empty_answers_as_g form_variant files_timestamp debug_mode_on w = (r, w', t)"
    and "\<not> list_ex unprinted t"
  shows "(\<exists>p. r = Inr (Some p) \<and>
              saved_sheets t = [answer_key image_path empty_answers_as_g (num_questions form_variant)
                                  (form_code_of t) (decoded_answers t)] \<and>
              answered_questions t = zip (py_range (num_questions form_variant)) (decoded_answers t) \<and>
              length (decoded_answers t) = nat (num_questions form_variant) \<and>
              complete_record image_path form_variant
                (answer_key image_path empty_answers_as_g (num_questions form_variant)
                   (form_code_of t) (decoded_answers t))) \<or>
         (r = Inr None \<and> saved_sheets t = []) \<or>
         (\<exists>e. r = Inl e \<and> debug_mode_on \<and> saved_sheets t = [])"
proof (cases r)
  case (Inl e)
  with raise_needs_debug[of h image_path output_folder multi_answers_as_f
        empty_answers_as_g form_variant files_timestamp debug_mode_on w e w' t] assms
  have "debug_mode_on" by simp
  with extract_keeps_promise[OF assms(1)] assms(2) Inl show ?thesis by auto
next
  case (Inr v)
  show ?thesis
  proof (cases v)
    case None
    with extract_keeps_promise[OF assms(1)] assms(2) Inr show ?thesis by auto
  next
    case (Some p)
    note rec = extract_success_record[OF assms(1)[unfolded Inr Some]]
    with complete_answer_key[of "decoded_answers t" form_variant image_path empty_answers_as_g
        "form_code_of t"]
      Inr Some show ?thesis by simp
  qed
qed

theorem complete_record_or_failure_witness:
  "saved_sheets (snd (snd (extract_answer_key_from_image sample_helpers
       [''in'', ''sheet.png''] [''out''] True True sample_form None False 0))) =
     [\<lparr>sheet_columns = [TEST_FORM_CODE, IMAGE_FILE], sheet_num_questions = 2,
        sheet_rows = [\<lparr>row_fields = [(TEST_FORM_CODE, ''AB''), (IMAGE_FILE, ''sheet.png'')],
                       row_answers = [''B'', ''G'']\<rparr>]\<rparr>] \<and>
   answered_questions (snd (snd (extract_answer_key_from_image sample_helpers
       [''in'', ''sheet.png''] [''out''] True True sample_form None False 0))) =
     [(0, ''B''), (1, [])]"
  using complete_record_or_failure[OF sample_run]
  by (simp add: sample_run saved_sheets_def answered_questions_def)

text \<open>
  C3 as stated fails in diagnostic mode: when a collaborator raises (here the grid cannot
  be built), the run neither returns a record nor returns \<^verbatim>\<open>None\<close>; it raises.
\<close>

theorem raise_in_debug_mode_counterexample:
  "fst (extract_answer_key_from_image bad_grid_helpers [''in'', ''sheet.png''] [''out''] True True
          sample_form None True 0) = Inl (Exception ''degenerate grid'')"
  by (simp add: extractor_defs run_defs sheet_defs sample_defs bad_grid_helpers_def)

section \<open>Empty answers\<close>

lemma placeholder_measure_log [simp]: "collect placeholder (measure_log grid qs ps) = []"
  unfolding measure_log_def by (rule collect_map_none) (simp split: prod.split)

lemma placeholder_answer_log [simp]: "collect placeholder (answer_log grid mu th fv afp ns as) = []"
  unfolding answer_log_def by (rule collect_map_none) (simp split: prod.split)

lemma placeholder_pipeline_log:
  "collect placeholder (pipeline_log hc vc image_path output_folder mu em fv ts dp v) =
     [if em then ''G'' else []]"
  by (simp add: pipeline_log_def corner_stage_log_def grid_stage_log_def measure_stage_log_def
      threshold_stage_log_def decode_stage_log_def record_stage_log_def record_log_def
      split: option.split)

lemma extract_success_placeholder:
  assumes "extract_answer_key_from_image h image_path output_folder mu em fv ts dbg w
             = (Inr (Some p), w', t)"
  shows "placeholders t = [if em then ''G'' else []]"
proof -
  from extract_success_log[OF assms] obtain dp w0 t0 v where
    st: "debug_setup h image_path output_folder ts dbg w = (Inr dp, w0, t0)"
    and t: "t = t0 @ pipeline_log (GRID_HORIZONTAL_CELLS h) (GRID_VERTICAL_CELLS h) image_path
                       output_folder mu em fv ts dp v"
    unfolding pipeline_log_def by blast
  have "list_all (\<lambda>ev. placeholder ev = None) t0"
    by (rule logs_onlyD[OF logs_only_debug_setup st]) simp_all
  then have "collect placeholder t0 = []" by (rule collect_none)
  then show ?thesis by (simp add: placeholders_def t placeholder_pipeline_log)
qed

text \<open>
  C7. In every successful run the extractor passes to \<^verbatim>\<open>clean_up\<close>, as the replacement
  for empty answers, \<^verbatim>\<open>G\<close> when \<^verbatim>\<open>empty_answers_as_g\<close> is true and the empty string when
  it is false; and the answers of the one row of the saved sheet are the decoded answers
  (what \<^verbatim>\<open>read_answer_as_string\<close> returned, question by question) with every empty one
  replaced by that placeholder. The replacement itself is \<^verbatim>\<open>clean_up\<close> of the output
  sheet as the spec describes it.
\<close>

theorem empty_answers_follow_the_flag:
  assumes "extract_answer_key_from_image h image_path output_folder multi_answers_as_f
      empty_answers_as_g form_variant files_timestamp debug_mode_on w = (Inr (Some p), w', t)"
  shows "placeholders t = [if empty_answers_as_g then ''G'' else []] \<and>
         (\<exists>sheet row. saved_sheets t = [sheet] \<and> sheet_rows sheet = [row] \<and>
            row_answers row =
              map (\<lambda>a. if a = [] then (if empty_answers_as_g then ''G'' else []) else a)
                (decoded_answers t))"
proof -
  from extract_success_record[OF assms] obtain fc where
    s: "saved_sheets t = [answer_key image_path empty_answers_as_g (num_questions form_variant) fc
                           (decoded_answers t)]"
    by blast
  have "sheet_rows (answer_key image_path empty_answers_as_g (num_questions form_variant) fc
                           (decoded_answers t)) =
        [\<lparr>row_fields = [(TEST_FORM_CODE, fc), (IMAGE_FILE, path_name image_path)],
          row_answers = map (\<lambda>a. if a = [] then (if empty_answers_as_g then ''G'' else []) else a)
                (decoded_answers t)\<rparr>]"
    by (simp add: answer_key_def OutputSheet_def add_def clean_up_def)
  with s extract_success_placeholder[OF assms] show ?thesis by auto
qed

theorem empty_answers_follow_the_flag_witness:
  "decoded_answers (snd (snd (extract_answer_key_from_image sample_helpers
       [''in'', ''sheet.png''] [''out''] True True sample_form None False 0))) = [''B'', []] \<and>
   (\<exists>sheet row. saved_sheets (snd (snd (extract_answer_key_from_image sample_helpers
       [''in'', ''sheet.png''] [''out''] True True sample_form None False 0))) = [sheet] \<and>
       sheet_rows sheet = [row] \<and> row_answers row = [''B'', ''G''])"
  using empty_answers_follow_the_flag[OF sample_run]
  by (simp add: sample_run decoded_answers_def)

section \<open>Runs in which no call fails\<close>

lemma clean_Nil [simp]: "clean []"
  by (simp add: clean_def)

lemma clean_append [simp]: "clean (a @ b) \<longleftrightarrow> clean a \<and> clean b"
  by (simp add: clean_def)

lemma clean_Cons [simp]: "clean (ev # t) \<longleftrightarrow> raised ev = None \<and> clean t"
  by (simp add: clean_def)

lemma returns_if_cleanD:
  assumes "returns_if_clean Q m" and "m w = (r, w', t)" and "clean t"
  shows "\<exists>x. r = Inr x \<and> Q x"
  using assms unfolding returns_if_clean_def by (auto split: prod.splits)

lemma returns_if_clean_return: "Q x \<Longrightarrow> returns_if_clean Q (py_return x)"
  by (simp add: returns_if_clean_def py_return_def)

lemma returns_if_clean_weaken:
  "returns_if_clean Q m \<Longrightarrow> (\<And>x. Q x \<Longrightarrow> Q' x) \<Longrightarrow> returns_if_clean Q' m"
  unfolding returns_if_clean_def by (auto split: prod.splits) blast

lemma returns_if_clean_call:
  assumes "\<And>r. raised (ev r) = failure r"
  shows "returns_if_clean (\<lambda>x. True) (call ev f)"
  unfolding returns_if_clean_def
proof
  fix w
  obtain r w1 where f: "f w = (r, w1)" by (cases "f w")
  show "case call ev f w of (r, w', t) \<Rightarrow> clean t \<longrightarrow> (\<exists>x. r = Inr x \<and> True)"
    using assms[of r] f by (cases r) (simp_all add: call_def failure_def)
qed

lemma returns_if_clean_print: "returns_if_clean (\<lambda>x. True) (py_print h s)"
  unfolding py_print_def
  by (rule returns_if_clean_call) (simp add: failure_def split: sum.split)

lemma returns_if_clean_bind:
  assumes m: "returns_if_clean Q1 m" and f: "\<And>x. Q1 x \<Longrightarrow> returns_if_clean Q (f x)"
  shows "returns_if_clean Q (py_bind m f)"
  unfolding returns_if_clean_def
proof
  fix w
  obtain r w1 t1 where mw: "m w = (r, w1, t1)" by (cases "m w")
  show "case py_bind m f w of (r, w', t) \<Rightarrow> clean t \<longrightarrow> (\<exists>x. r = Inr x \<and> Q x)"
  proof (cases r)
    case (Inl e)
    with returns_if_cleanD[OF m mw] mw show ?thesis by (auto simp: py_bind_def)
  next
    case (Inr x)
    obtain r2 w2 t2 where fx: "f x w1 = (r2, w2, t2)" by (cases "f x w1")
    have "\<exists>y. r2 = Inr y \<and> Q y" if c: "clean (t1 @ t2)"
    proof -
      from c have c1: "clean t1" and c2: "clean t2" by simp_all
      from returns_if_cleanD[OF m mw c1] Inr have "Q1 x" by simp
      from returns_if_cleanD[OF f[OF this] fx c2] show ?thesis .
    qed
    with mw Inr fx show ?thesis by (simp add: py_bind_def)
  qed
qed

lemma returns_if_clean_except:
  assumes m: "returns_if_clean Q m"
  shows "returns_if_clean Q (py_except m handler)"
  unfolding returns_if_clean_def
proof
  fix w
  obtain r w1 t1 where mw: "m w = (r, w1, t1)" by (cases "m w")
  show "case py_except m handler w of (r, w', t) \<Rightarrow> clean t \<longrightarrow> (\<exists>x. r = Inr x \<and> Q x)"
  proof (cases r)
    case (Inr x)
    with returns_if_cleanD[OF m mw] mw show ?thesis by (auto simp: py_except_def)
  next
    case (Inl e)
    from returns_if_cleanD[OF m mw] Inl have "\<not> clean t1" by auto
    with mw Inl show ?thesis by (simp add: py_except_def split: prod.split)
  qed
qed

lemma returns_if_clean_map:
  assumes "\<And>x. x \<in> set xs \<Longrightarrow> returns_if_clean (\<lambda>y. True) (f x)"
  shows "returns_if_clean (\<lambda>ys. length ys = length xs) (py_map f xs)"
  using assms
proof (induction xs)
  case Nil
  show ?case by (simp add: returns_if_clean_return)
next
  case (Cons x xs)
  have tl: "returns_if_clean (\<lambda>ys. length ys = length xs) (py_map f xs)"
    by (rule Cons.IH) (simp add: Cons.prems)
  have hd: "returns_if_clean (\<lambda>y. True) (f x)"
    by (rule Cons.prems) simp
  show ?case
    unfolding py_map.simps
    by (rule returns_if_clean_bind[OF hd], rule returns_if_clean_bind[OF tl])
       (simp add: returns_if_clean_return)
qed

lemma returns_if_clean_index:
  "0 \<le> i \<Longrightarrow> i < int (length xs) \<Longrightarrow> returns_if_clean (\<lambda>x. True) (py_index xs i)"
  by (simp add: py_index_def Let_def returns_if_clean_return)

lemma raised_measure: "raised (Get_all_fill_percents q g r) = failure r"
  by simp

lemma returns_if_clean_field_fills:
  "returns_if_clean (\<lambda>x. True) (field_fills h grid kvs acc)"
proof (induction h grid kvs acc rule: field_fills.induct)
  case (1 h grid acc)
  show ?case by (simp add: returns_if_clean_return)
next
  case (2 h grid key rest acc)
  then show ?case by simp
next
  case (3 h grid key v rest acc)
  show ?case
    unfolding field_fills.simps
    by (rule returns_if_clean_bind[OF returns_if_clean_call]) (simp, rule "3.IH")
qed

lemma returns_if_clean_question_fills:
  "returns_if_clean (\<lambda>afp. length afp = length qs) (question_fills h grid qs)"
  unfolding question_fills_def
  by (rule returns_if_clean_map, rule returns_if_clean_call) simp

lemma returns_if_clean_read_answers:
  assumes "nat n \<le> length afp"
  shows "returns_if_clean (\<lambda>x. True) (read_answers h grid mu th fv afp (py_range n))"
proof -
  have one: "returns_if_clean (\<lambda>y. True)
      (py_bind (py_index afp i) (\<lambda>p. call (Read_answer_as_string i grid mu th fv p)
          (read_answer_as_string h i grid mu th fv p)))" if "i \<in> set (py_range n)" for i
  proof -
    from that assms have i: "0 \<le> i" "i < int (length afp)" by (auto simp: py_range_def)
    show ?thesis
      by (rule returns_if_clean_bind[OF returns_if_clean_index[OF i]])
         (rule returns_if_clean_call, simp)
  qed
  have "returns_if_clean (\<lambda>ys. length ys = length (py_range n))
      (read_answers h grid mu th fv afp (py_range n))"
    unfolding read_answers_def by (rule returns_if_clean_map) (rule one)
  then show ?thesis by (rule returns_if_clean_weaken) simp
qed

lemma returns_if_clean_read_form_code:
  "returns_if_clean (\<lambda>x. True) (read_form_code h grid th fv ffp)"
  unfolding read_form_code_def
  by (cases "map_of ffp TEST_FORM_CODE")
     (auto intro!: returns_if_clean_return returns_if_clean_bind[OF returns_if_clean_call])

lemma returns_if_clean_save_answer_key:
  "returns_if_clean (\<lambda>v. v \<noteq> None) (save_answer_key h image_path output_folder em fv ts fc as)"
  unfolding returns_if_clean_def
proof
  fix w
  obtain r w1 where s: "save h (answer_key image_path em (num_questions fv) fc as) output_folder
             ''extracted_answer_key'' False ts w = (r, w1)"
    by (cases "save h (answer_key image_path em (num_questions fv) fc as) output_folder
             ''extracted_answer_key'' False ts w")
  show "case save_answer_key h image_path output_folder em fv ts fc as w of
          (r, w', t) \<Rightarrow> clean t \<longrightarrow> (\<exists>x. r = Inr x \<and> x \<noteq> None)"
    by (cases r)
       (simp_all add: save_answer_key_run[OF s] failure_def split: prod.split sum.split)
qed

lemma returns_if_clean_find_corners:
  "returns_if_clean (\<lambda>found. found \<noteq> None) (find_corners h image_path prepared dp)"
  unfolding find_corners_def
  by (rule returns_if_clean_except, rule returns_if_clean_bind[OF returns_if_clean_call])
     (simp_all add: returns_if_clean_return)

lemma returns_if_clean_decode_sheet:
  assumes "nat (num_questions fv) \<le> length (questions fv)"
  shows "returns_if_clean (\<lambda>v. v \<noteq> None)
           (decode_sheet h image_path output_folder mu em fv ts dp prepared corners)"
  unfolding decode_sheet_def
  apply (rule returns_if_clean_bind[OF returns_if_clean_call], simp)
  apply (rule returns_if_clean_bind[OF returns_if_clean_call], simp)
  apply (rule returns_if_clean_bind[OF returns_if_clean_field_fills])
  apply (rule returns_if_clean_bind[OF returns_if_clean_question_fills])
  apply (rule returns_if_clean_bind[OF returns_if_clean_call], simp)
  apply (rule returns_if_clean_bind[OF returns_if_clean_read_answers])
   apply (simp add: assms)
  apply (rule returns_if_clean_bind[OF returns_if_clean_read_form_code])
  apply (rule returns_if_clean_save_answer_key)
  done

lemma returns_if_clean_found:
  assumes "nat (num_questions fv) \<le> length (questions fv)" and "found \<noteq> None"
  shows "returns_if_clean (\<lambda>v. v \<noteq> None)
      (case found of None \<Rightarrow> py_return None
       | Some corners \<Rightarrow> decode_sheet h image_path output_folder mu em fv ts dp prepared corners)"
proof (cases found)
  case None
  with assms(2) show ?thesis by simp
next
  case (Some corners)
  show ?thesis
    unfolding Some option.case by (rule returns_if_clean_decode_sheet[OF assms(1)])
qed

lemma returns_if_clean_try_block:
  assumes "nat (num_questions fv) \<le> length (questions fv)"
  shows "returns_if_clean (\<lambda>v. v \<noteq> None) (try_block h image_path output_folder mu em fv ts dp)"
  unfolding try_block_def
  apply (rule returns_if_clean_bind[OF returns_if_clean_call], simp)
  apply (rule returns_if_clean_bind[OF returns_if_clean_call], simp)
  apply (rule returns_if_clean_bind[OF returns_if_clean_find_corners])
  apply (rule returns_if_clean_found[OF assms])
  apply assumption
  done

lemma returns_if_clean_debug_setup:
  "returns_if_clean (\<lambda>x. True) (debug_setup h image_path output_folder ts dbg)"
  unfolding debug_setup_def Let_def
  by (auto intro!: returns_if_clean_return returns_if_clean_bind[OF returns_if_clean_call])

lemma clean_run_returns_path:
  assumes run: "extract_answer_key_from_image h image_path output_folder mu em fv ts dbg w = (r, w', t)"
    and c: "clean t"
    and n: "nat (num_questions fv) \<le> length (questions fv)"
  shows "\<exists>p. r = Inr (Some p)"
  using run
proof (cases rule: extract_cases)
  case (setup_raised x)
  with returns_if_cleanD[OF returns_if_clean_debug_setup setup_raised(1) c] show ?thesis by simp
next
  case (returned dp w0 t0 v t1)
  with c have "clean t1" by simp
  from returns_if_cleanD[OF returns_if_clean_try_block[OF n] returned(2) this] returned(3)
  show ?thesis by auto
next
  case (handled dp w0 t0 x w1 t1 t2)
  with c have "clean t1" by simp
  from returns_if_cleanD[OF returns_if_clean_try_block[OF n] handled(2) this]
  show ?thesis by simp
qed

section \<open>The form code\<close>

lemma map_of_dict_set: "map_of (dict_set acc k v) k' = (if k' = k then Some v else map_of acc k')"
  by (induction acc k v rule: dict_set.induct) auto

lemma map_of_fill_dict_None:
  "length ps = length kqs \<Longrightarrow>
     map_of (fill_dict acc (zip (map fst kqs) ps)) k = None \<longleftrightarrow>
       map_of acc k = None \<and> map_of kqs k = None"
proof (induction ps kqs arbitrary: acc rule: list_induct2)
  case Nil
  then show ?case by simp
next
  case (Cons p ps kq kqs)
  then show ?case by (cases kq) (auto simp: map_of_dict_set)
qed

lemma added_measure_log [simp]: "collect added (measure_log grid qs ps) = []"
  unfolding measure_log_def by (rule collect_map_none) (simp split: prod.split)

lemma added_answer_log [simp]: "collect added (answer_log grid mu th fv afp ns as) = []"
  unfolding answer_log_def by (rule collect_map_none) (simp split: prod.split)

lemma added_pipeline_log:
  "collect added (pipeline_log hc vc image_path output_folder mu em fv ts dp v) =
     [[(TEST_FORM_CODE, decoded_form_code fv v), (IMAGE_FILE, path_name image_path)]]"
  by (simp add: pipeline_log_def corner_stage_log_def grid_stage_log_def measure_stage_log_def
      threshold_stage_log_def decode_stage_log_def record_stage_log_def record_log_def
      split: option.split)

lemma falsy_form_code:
  assumes "list_all falsy_read (decode_stage_log mu fv v :: ('b, 'c, 'd, 'e, 'f, 'g) event list)"
  shows "decoded_form_code fv (v :: ('b, 'c, 'd, 'f, 'g) stage_values) = []"
proof (cases "map_of (pooled_field_fills fv v) TEST_FORM_CODE")
  case None
  then show ?thesis by (simp add: decoded_form_code_def)
next
  case (Some q)
  with assms have "v_form_code v = None \<or> v_form_code v = Some []"
    by (simp add: decode_stage_log_def)
  with Some show ?thesis by (auto simp: decoded_form_code_def)
qed

lemma unconfigured_form_code:
  assumes "well_sized fv v" and "map_of (configured (form_fields fv)) TEST_FORM_CODE = None"
  shows "decoded_form_code fv v = []"
proof -
  from assms have "map_of (pooled_field_fills fv v) TEST_FORM_CODE = None"
    by (simp add: pooled_field_fills_def well_sized_def map_of_fill_dict_None)
  then show ?thesis by (simp add: decoded_form_code_def)
qed

text \<open>
  C10. Take a run of the extractor in which no call failed, on a form variant that has a
  question for every question number below \<^verbatim>\<open>num_questions\<close>. If the form code field is not
  configured (it is absent from \<^verbatim>\<open>fields\<close>, or its value is \<^verbatim>\<open>None\<close>), or every reading
  of a field in the run gave \<^verbatim>\<open>None\<close> or the empty string, then the run did not fail the
  sheet: it returned the path of a saved sheet, the field values it passed to \<^verbatim>\<open>add\<close>
  hold the empty string as the form code, and the one sheet it saved is the complete
  record with the empty string as its form code and the answers read in this run, one for
  each question number below \<^verbatim>\<open>num_questions\<close>.
\<close>

theorem missing_form_code_is_empty:
  assumes run: "extract_answer_key_from_image h image_path output_folder multi_answers_as_f
      empty_answers_as_g form_variant files_timestamp debug_mode_on w = (r, w', t)"
    and ok: "clean t"
    and size: "nat (num_questions form_variant) \<le> length (questions form_variant)"
    and falsy: "map_of (configured (form_fields form_variant)) TEST_FORM_CODE = None \<or>
                list_all falsy_read t"
  shows "\<exists>p. r = Inr (Some p) \<and>
     added_fields t = [[(TEST_FORM_CODE, []), (IMAGE_FILE, path_name image_path)]] \<and>
     saved_sheets t = [answer_key image_path empty_answers_as_g (num_questions form_variant) []
                         (decoded_answers t)] \<and>
     answered_questions t = zip (py_range (num_questions form_variant)) (decoded_answers t) \<and>
     complete_record image_path form_variant
       (answer_key image_path empty_answers_as_g (num_questions form_variant) []
          (decoded_answers t))"
proof -
  from clean_run_returns_path[OF run ok size] obtain p where r: "r = Inr (Some p)" by blast
  note run' = run[unfolded r]
  from extract_success_log[OF run'] obtain dp w0 t0 v where
    st: "debug_setup h image_path output_folder files_timestamp debug_mode_on w = (Inr dp, w0, t0)"
    and ws: "well_sized form_variant v"
    and t: "t = t0 @ corner_stage_log image_path dp v
            @ grid_stage_log (GRID_HORIZONTAL_CELLS h) (GRID_VERTICAL_CELLS h) dp v
            @ measure_stage_log form_variant v
            @ threshold_stage_log form_variant dp v
            @ decode_stage_log multi_answers_as_f form_variant v
            @ record_stage_log image_path output_folder empty_answers_as_g form_variant
                files_timestamp v"
    by blast
  have t': "t = t0 @ pipeline_log (GRID_HORIZONTAL_CELLS h) (GRID_VERTICAL_CELLS h) image_path
                       output_folder multi_answers_as_f empty_answers_as_g form_variant
                       files_timestamp dp v"
    by (simp add: t pipeline_log_def)
  have fc: "decoded_form_code form_variant v = []"
    using falsy
  proof
    assume "map_of (configured (form_fields form_variant)) TEST_FORM_CODE = None"
    with ws show ?thesis by (rule unconfigured_form_code)
  next
    assume "list_all falsy_read t"
    then have "list_all falsy_read (decode_stage_log multi_answers_as_f form_variant v
            :: ('b, 'c, 'd, 'e, 'f, 'g) event list)"
      by (simp add: t)
    then show ?thesis by (rule falsy_form_code)
  qed
  have "list_all (\<lambda>ev. added ev = None) t0"
    by (rule logs_onlyD[OF logs_only_debug_setup st]) simp_all
  then have a0: "collect added t0 = []" by (rule collect_none)
  have "list_all (\<lambda>ev. read_code ev = None) t0"
    by (rule logs_onlyD[OF logs_only_debug_setup st]) simp_all
  then have c0: "collect read_code t0 = []" by (rule collect_none)
  have "form_code_of t = decoded_form_code form_variant v"
    by (simp add: form_code_of_def t' c0 read_code_pipeline_log decoded_form_code_def
        split: option.split)
  with fc have c: "form_code_of t = []" by simp
  have a: "added_fields t = [[(TEST_FORM_CODE, []), (IMAGE_FILE, path_name image_path)]]"
    by (simp add: added_fields_def t' a0 added_pipeline_log fc)
  note rec = extract_success_record[OF run', unfolded c]
  from rec have cr: "complete_record image_path form_variant
       (answer_key image_path empty_answers_as_g (num_questions form_variant) []
          (decoded_answers t))"
    by (intro complete_answer_key) simp
  from r a rec cr show ?thesis by simp
qed

lemma faint_run_clean:
  "clean (snd (snd (extract_answer_key_from_image sample_helpers [''in'', ''sheet.png''] [''out'']
     True True faint_form None False 0)))"
  by code_simp

lemma faint_run_falsy:
  "list_all falsy_read (snd (snd (extract_answer_key_from_image sample_helpers
     [''in'', ''sheet.png''] [''out''] True True faint_form None False 0)))"
  by code_simp

lemma faint_run_reads:
  "collect read_code (snd (snd (extract_answer_key_from_image sample_helpers
     [''in'', ''sheet.png''] [''out''] True True faint_form None False 0))) = [Some []]"
  by code_simp

lemma plain_run_clean:
  "clean (snd (snd (extract_answer_key_from_image sample_helpers [''in'', ''sheet.png''] [''out'']
     True True plain_form None False 0)))"
  by code_simp

theorem missing_form_code_is_empty_witness:
  "collect read_code (snd (snd (extract_answer_key_from_image sample_helpers
     [''in'', ''sheet.png''] [''out''] True True faint_form None False 0))) = [Some []] \<and>
   (\<exists>p. fst (extract_answer_key_from_image sample_helpers [''in'', ''sheet.png''] [''out'']
           True True faint_form None False 0) = Inr (Some p)) \<and>
   added_fields (snd (snd (extract_answer_key_from_image sample_helpers
     [''in'', ''sheet.png''] [''out''] True True faint_form None False 0))) =
     [[(TEST_FORM_CODE, []), (IMAGE_FILE, ''sheet.png'')]] \<and>
   (\<exists>p. fst (extract_answer_key_from_image sample_helpers [''in'', ''sheet.png''] [''out'']
           True True plain_form None False 0) = Inr (Some p)) \<and>
   added_fields (snd (snd (extract_answer_key_from_image sample_helpers
     [''in'', ''sheet.png''] [''out''] True True plain_form None False 0))) =
     [[(TEST_FORM_CODE, []), (IMAGE_FILE, ''sheet.png'')]]"
proof -
  have n1: "nat (num_questions faint_form) \<le> length (questions faint_form)"
    by (simp add: faint_form_def)
  have n2: "nat (num_questions plain_form) \<le> length (questions plain_form)"
    by (simp add: plain_form_def)
  have c2: "map_of (configured (form_fields plain_form)) TEST_FORM_CODE = None"
    by (simp add: plain_form_def)
  have e: "x = (fst x, fst (snd x), snd (snd x))" for x :: "'a \<times> 'b \<times> 'c"
    by simp
  show ?thesis
    using missing_form_code_is_empty[OF e faint_run_clean n1 disjI2[OF faint_run_falsy]]
      missing_form_code_is_empty[OF e plain_run_clean n2 disjI1[OF c2]]
      faint_run_reads
    by (simp add: path_name_def)
qed

section \<open>One threshold per sheet\<close>











subsection \<open>Measuring\<close>






subsection \<open>The pooled fill percents\<close>







subsection \<open>Calibrating and reading\<close>













subsection \<open>The whole run\<close>







text \<open>
  The monitor is not idle. For the sample form variant it refuses a threshold computed
  from nothing, one computed from a part of the measured population, one computed from
  fill percents that were not measured, an answer read against another value than the
  computed threshold, an answer read before any threshold was computed, and a sheet saved
  without a threshold.
\<close>

lemma monitor_refuses:
  "threshold_monitor sample_form (Measuring [])
     [Calculate_bubble_fill_threshold [] [] None sample_form (Inr (50::nat))
        :: (nat, nat, nat, nat, nat list, nat) event] = None"
  "threshold_monitor sample_form (Measuring [])
     [Get_all_fill_percents (2::nat) (1::nat) (Inr [80, 85, 5]),
      Get_all_fill_percents 0 1 (Inr [10, 95, 5]),
      Calculate_bubble_fill_threshold [(TEST_FORM_CODE, [80, 85, 5])] [[10, 95, 5]] None
        sample_form (Inr (50::nat))
        :: (nat, nat, nat, nat, nat list, nat) event] = None"
  "threshold_monitor sample_form (Measuring [])
     [Get_all_fill_percents (2::nat) (1::nat) (Inr [80, 85, 5]),
      Get_all_fill_percents 0 1 (Inr [10, 95, 5]),
      Get_all_fill_percents 1 1 (Inr [5, 5, 5]),
      Calculate_bubble_fill_threshold [(TEST_FORM_CODE, [80, 85, 5])] [[10, 95, 5], [90, 90, 90]]
        None sample_form (Inr (50::nat))
        :: (nat, nat, nat, nat, nat list, nat) event] = None"
  "threshold_monitor sample_form (Measuring [])
     [Get_all_fill_percents (2::nat) (1::nat) (Inr [80, 85, 5]),
      Get_all_fill_percents 0 1 (Inr [10, 95, 5]),
      Get_all_fill_percents 1 1 (Inr [5, 5, 5]),
      Calculate_bubble_fill_threshold [(TEST_FORM_CODE, [80, 85, 5])] [[10, 95, 5], [5, 5, 5]]
        None sample_form (Inr (50::nat)),
      Read_answer_as_string 0 1 True 49 sample_form [10, 95, 5] (Inr ''B'')
        :: (nat, nat, nat, nat, nat list, nat) event] = None"
  "threshold_monitor sample_form (Measuring [])
     [Read_answer_as_string 0 (1::nat) True 50 sample_form ([5, 5, 5]::nat list) (Inr [])
        :: (nat, nat, nat, nat, nat list, nat) event] = None"
  "threshold_monitor sample_form (Measuring [])
     [OutputSheet_save (OutputSheet [TEST_FORM_CODE, IMAGE_FILE] 2) [''out'']
        ''extracted_answer_key'' False None (Inr [''out'', ''extracted_answer_key.csv''])
        :: (nat, nat, nat, nat, nat list, nat) event] = None"
  by (simp_all add: full_pool_def pools_def sample_form_simps OutputSheet_def)

section \<open>The wrapper with a progress tracker\<close>

lemma gui_without_tracker:
  "extract_answer_key_from_image_gui h image_path output_folder mu em fv ts None dbg =
   extract_answer_key_from_image h image_path output_folder mu em fv ts dbg"
proof
  fix w
  obtain r w1 t where e: "extract_answer_key_from_image h image_path output_folder mu em fv ts dbg w
      = (r, w1, t)"
    by (cases "extract_answer_key_from_image h image_path output_folder mu em fv ts dbg w")
  show "extract_answer_key_from_image_gui h image_path output_folder mu em fv ts None dbg w =
        extract_answer_key_from_image h image_path output_folder mu em fv ts dbg w"
    using e
    by (cases r) (simp_all add: extract_answer_key_from_image_gui_def py_bind_def py_return_def)
qed

lemma gui_with_tracker:
  assumes s: "tracker (start_status image_path) False w = (Inr (), w0)"
    and e: "extract_answer_key_from_image h image_path output_folder mu em fv ts dbg w0 = (r, w1, t)"
    and f: "\<And>v. r = Inr v \<Longrightarrow> tracker (final_status image_path v) False w1 = (Inr (), w2)"
  shows "extract_answer_key_from_image_gui h image_path output_folder mu em fv ts (Some tracker) dbg w =
     (case r of
        Inl x \<Rightarrow> (Inl x, w1, Set_status (start_status image_path) False (Inr ()) # t)
      | Inr v \<Rightarrow> (Inr v, w2, Set_status (start_status image_path) False (Inr ()) # t
                     @ [Set_status (final_status image_path v) False (Inr ())]))"
proof (cases r)
  case (Inl x)
  with s e show ?thesis
    by (simp add: extract_answer_key_from_image_gui_def py_bind_def call_def Let_def
        start_status_def)
next
  case (Inr v)
  from f[OF Inr] s e Inr show ?thesis
    by (cases v)
       (simp_all add: extract_answer_key_from_image_gui_def py_bind_def call_def Let_def
          start_status_def final_status_def py_return_def)
qed


lemma logs_no_status_decode_sheet:
  "logs_only (\<lambda>ev. \<not> is_status ev)
     (decode_sheet h image_path output_folder mu em fv ts dp prepared corners)"
proof -
  have r: "\<And>grid th ffp. logs_only (\<lambda>ev. \<not> is_status ev) (read_form_code h grid th fv ffp)"
    unfolding read_form_code_def
    by (auto intro!: logs_only_bind logs_only_call split: option.split)
  have s: "\<And>fc as. logs_only (\<lambda>ev. \<not> is_status ev)
             (save_answer_key h image_path output_folder em fv ts fc as)"
    unfolding save_answer_key_def Let_def
    by (intro logs_only_bind logs_only_call logs_only_log logs_only_print) simp_all
  show ?thesis
    unfolding decode_sheet_def question_fills_def read_answers_def
    by (intro logs_only_bind logs_only_call logs_only_map logs_only_field_fills logs_only_index r s)
       simp_all
qed

lemma logs_no_status_extract:
  "logs_only (\<lambda>ev. \<not> is_status ev)
     (extract_answer_key_from_image h image_path output_folder mu em fv ts dbg)"
  unfolding extract_answer_key_from_image_def try_block_def
  by (intro logs_only_bind logs_only_except logs_only_debug_setup logs_only_call
        logs_only_find_corners logs_only_on_exception)
     (simp_all add: logs_no_status_decode_sheet split: option.split)

lemma without_status_extract:
  assumes "extract_answer_key_from_image h image_path output_folder mu em fv ts dbg w = (r, w1, t)"
  shows "without_status t = t"
  using logs_onlyD[OF logs_no_status_extract assms]
  by (simp add: without_status_def list_all_iff)

text \<open>
  C9 (as amended). Without a progress tracker the wrapper is the extractor. With a tracker
  whose two status updates return, the wrapper returns what the extractor returns, and
  raises what it raises, when called with the same arguments after the first status
  update; and without its status events the log of the wrapper is the log of that call.
\<close>

theorem gui_returns_extraction_result:
  "extract_answer_key_from_image_gui h image_path output_folder multi_answers_as_f
     empty_answers_as_g form_variant files_timestamp None debug_mode_on =
   extract_answer_key_from_image h image_path output_folder multi_answers_as_f
     empty_answers_as_g form_variant files_timestamp debug_mode_on \<and>
   (tracker (start_status image_path) False w = (Inr (), w0) \<and>
    extract_answer_key_from_image h image_path output_folder multi_answers_as_f
      empty_answers_as_g form_variant files_timestamp debug_mode_on w0 = (r, w1, t) \<and>
    (\<forall>v. r = Inr v \<longrightarrow> tracker (final_status image_path v) False w1 = (Inr (), w2)) \<longrightarrow>
    fst (extract_answer_key_from_image_gui h image_path output_folder multi_answers_as_f
           empty_answers_as_g form_variant files_timestamp (Some tracker) debug_mode_on w) = r \<and>
    without_status (snd (snd (extract_answer_key_from_image_gui h image_path output_folder
           multi_answers_as_f empty_answers_as_g form_variant files_timestamp (Some tracker)
           debug_mode_on w))) = t)"
proof (intro conjI impI)
  show "extract_answer_key_from_image_gui h image_path output_folder multi_answers_as_f
     empty_answers_as_g form_variant files_timestamp None debug_mode_on =
   extract_answer_key_from_image h image_path output_folder multi_answers_as_f
     empty_answers_as_g form_variant files_timestamp debug_mode_on"
    by (rule gui_without_tracker)
next
  assume a: "tracker (start_status image_path) False w = (Inr (), w0) \<and>
    extract_answer_key_from_image h image_path output_folder multi_answers_as_f
      empty_answers_as_g form_variant files_timestamp debug_mode_on w0 = (r, w1, t) \<and>
    (\<forall>v. r = Inr v \<longrightarrow> tracker (final_status image_path v) False w1 = (Inr (), w2))"
  then have g: "extract_answer_key_from_image_gui h image_path output_folder multi_answers_as_f
      empty_answers_as_g form_variant files_timestamp (Some tracker) debug_mode_on w =
     (case r of
        Inl x \<Rightarrow> (Inl x, w1, Set_status (start_status image_path) False (Inr ()) # t)
      | Inr v \<Rightarrow> (Inr v, w2, Set_status (start_status image_path) False (Inr ()) # t
                     @ [Set_status (final_status image_path v) False (Inr ())]))"
    by (intro gui_with_tracker) auto
  from a have "extract_answer_key_from_image h image_path output_folder multi_answers_as_f
      empty_answers_as_g form_variant files_timestamp debug_mode_on w0 = (r, w1, t)"
    by simp
  then have wt: "without_status t = t"
    by (rule without_status_extract)
  show "fst (extract_answer_key_from_image_gui h image_path output_folder multi_answers_as_f
           empty_answers_as_g form_variant files_timestamp (Some tracker) debug_mode_on w) = r"
    unfolding g by (cases r) simp_all
  show "without_status (snd (snd (extract_answer_key_from_image_gui h image_path output_folder
           multi_answers_as_f empty_answers_as_g form_variant files_timestamp (Some tracker)
           debug_mode_on w))) = t"
    unfolding g using wt by (cases r) (simp_all add: without_status_def)
qed


theorem gui_returns_extraction_result_witness:
  "fst (extract_answer_key_from_image_gui sample_helpers [''in'', ''sheet.png''] [''out''] True True
          sample_form None (Some counting_tracker) False 0) =
     Inr (Some [''out'', ''extracted_answer_key.csv'']) \<and>
   without_status (snd (snd (extract_answer_key_from_image_gui sample_helpers
          [''in'', ''sheet.png''] [''out''] True True sample_form None (Some counting_tracker) False 0))) =
     snd (snd (extract_answer_key_from_image sample_helpers [''in'', ''sheet.png''] [''out''] True True
          sample_form None False 1))"
proof -
  have v: "fst (extract_answer_key_from_image sample_helpers [''in'', ''sheet.png''] [''out''] True True
          sample_form None False 1) = Inr (Some [''out'', ''extracted_answer_key.csv''])"
    by code_simp
  show ?thesis
    using gui_returns_extraction_result[where h = sample_helpers
        and image_path = "[''in'', ''sheet.png'']" and output_folder = "[''out'']"
        and multi_answers_as_f = True and empty_answers_as_g = True and form_variant = sample_form
        and files_timestamp = None and debug_mode_on = False and tracker = counting_tracker
        and w = 0 and ?w0.0 = 1
        and r = "fst (extract_answer_key_from_image sample_helpers [''in'', ''sheet.png''] [''out'']
                   True True sample_form None False 1)"
        and ?w1.0 = "fst (snd (extract_answer_key_from_image sample_helpers [''in'', ''sheet.png'']
                   [''out''] True True sample_form None False 1))"
        and t = "snd (snd (extract_answer_key_from_image sample_helpers [''in'', ''sheet.png'']
                   [''out''] True True sample_form None False 1))"
        and ?w2.0 = "Suc (fst (snd (extract_answer_key_from_image sample_helpers
                   [''in'', ''sheet.png''] [''out''] True True sample_form None False 1)))"]
      v
    by (simp add: counting_tracker_def)
qed

text \<open>
  C9 as stated fails for a tracker whose status update raises: the wrapper raises before
  the extraction starts, where the extractor itself returns the path of the saved sheet.
\<close>

theorem gui_with_broken_tracker_counterexample:
  "fst (extract_answer_key_from_image_gui sample_helpers [''in'', ''sheet.png''] [''out''] True True
          sample_form None (Some broken_tracker) False 0) = Inl (Exception ''window closed'') \<and>
   fst (extract_answer_key_from_image sample_helpers [''in'', ''sheet.png''] [''out''] True True
          sample_form None False 0) = Inr (Some [''out'', ''extracted_answer_key.csv''])"
  by (simp add: sample_run extract_answer_key_from_image_gui_def py_bind_def call_def Let_def
      broken_tracker_def)

end
